theory Spec2Isabelle
  imports Main "HOL-Library.Word"
begin

section \<open>Data model\<close>

text \<open>
  The TypeScript sources \<^verbatim>\<open>platform.ts\<close>, \<^verbatim>\<open>loader.ts\<close> and \<^verbatim>\<open>ffi_api.ts\<close> are embedded
  as functions over an explicit world. A \<^verbatim>\<open>bigint\<close> is an integer; a \<^verbatim>\<open>number\<close> that holds a
  byte count is an integer-valued double, and every conversion \<^verbatim>\<open>Number(x)\<close> and every sum or
  difference of numbers rounds as IEEE 754 does (section \<open>JavaScript numbers\<close>). Every
  \<^verbatim>\<open>throw\<close> is a value of the type \<open>error\<close>, one constructor for each message of the source
  or of the runtime. The contents of mapped regions and of the copy buffers are left out: the native
  binary appears through the calls it receives and the values it reports.
\<close>

type_synonym byte = "8 word"

datatype error =
    UnsupportedOS string
  | UnsupportedArch string
  | NetworkError string
  | FetchFailed string nat
  | NoChecksum string
  | ChecksumMismatchCache
  | ChecksumMismatch string
  | ReadFileFailed string
  | WriteFileFailed string
  | DlopenFailed string
  | TruncateFailed string
  | MmapOpenFailed string
  | MmapOpenWriteFailed string
  | MmapOpenWriteWithSizeFailed string
  | WriteBeyond
  | ReadBeyond
  | FlushFailed
  | RangeError

section \<open>JavaScript numbers\<close>

text \<open>The doubles that occur: integer values, and the two infinities that a conversion or a sum
  can overflow to.\<close>

datatype jsnum = Num int | PosInf | NegInf

text \<open>The number of bits of a positive integer.\<close>

function bit_length :: "int \<Rightarrow> nat" where
  "bit_length n = (if n \<le> 0 then 0 else Suc (bit_length (n div 2)))"
  by pat_completeness auto
termination
  by (relation "measure nat") auto

declare bit_length.simps [simp del]

text \<open>Round to nearest, ties to even, on a non-negative integer: a value of at most 53 bits is
  exact, a longer one is rounded to a multiple of the weight of its 53rd leading bit.\<close>

definition rne :: "int \<Rightarrow> int" where
  "rne m =
     (if bit_length m \<le> 53 then m
      else
        (let ulp = 2 ^ (bit_length m - 53); q = m div ulp; r = m mod ulp
         in (if 2 * r < ulp then q else if ulp < 2 * r then q + 1
             else if even q then q else q + 1) * ulp))"

text \<open>The magnitude from which a rounded value is infinite.\<close>

definition overflow_at :: int where
  "overflow_at = 2 ^ 1024"

text \<open>\<^verbatim>\<open>Number(x)\<close> on a \<^verbatim>\<open>bigint\<close>: the nearest double.\<close>

definition Number :: "int \<Rightarrow> jsnum" where
  "Number x =
     (let v = rne \<bar>x\<bar> in
      if overflow_at \<le> v then (if x < 0 then NegInf else PosInf)
      else Num (if x < 0 then - v else v))"

text \<open>\<^verbatim>\<open>Number(x)\<close> on an unsigned 64-bit value (an element of a \<^verbatim>\<open>BigUint64Array\<close>, a
  \<^verbatim>\<open>usize\<close> result), which is always finite.\<close>

definition Number_u64 :: "64 word \<Rightarrow> int" where
  "Number_u64 n = rne (uint n)"

text \<open>\<^verbatim>\<open>a + b\<close> and \<^verbatim>\<open>a - b\<close> on numbers, one operand a finite integer: the exact result,
  rounded. \<^verbatim>\<open>a > b\<close> is exact.\<close>

definition num_add :: "jsnum \<Rightarrow> int \<Rightarrow> jsnum" where
  "num_add a b = (case a of Num v \<Rightarrow> Number (v + b) | PosInf \<Rightarrow> PosInf | NegInf \<Rightarrow> NegInf)"

definition num_sub :: "int \<Rightarrow> jsnum \<Rightarrow> jsnum" where
  "num_sub a b = (case b of Num v \<Rightarrow> Number (a - v) | PosInf \<Rightarrow> NegInf | NegInf \<Rightarrow> PosInf)"

definition num_gt :: "jsnum \<Rightarrow> int \<Rightarrow> bool" where
  "num_gt a b = (case a of Num v \<Rightarrow> b < v | PosInf \<Rightarrow> True | NegInf \<Rightarrow> False)"

text \<open>The JavaScript values that \<^verbatim>\<open>lib.symbols\<close> and the symbol definitions hold.\<close>

datatype jsval =
    JUndefined
  | JString string
  | JArray "jsval list"
  | JObject "(string \<times> jsval) list"
  | JFunction string

text \<open>The result of \<^verbatim>\<open>Deno.dlopen\<close>: the path it was opened from and its bound symbols.\<close>

record lib =
  lib_path :: string
  symbols :: "string \<rightharpoonup> jsval"

text \<open>\<^verbatim>\<open>type MmapHandle = { ptr: Deno.PointerValue; len: number; path: string }\<close>;
  a pointer value is \<^verbatim>\<open>null\<close> (\<open>None\<close>) or a pointer object with its address, and the length
  is a finite integer-valued number.\<close>

record MmapHandle =
  ptr :: "nat option"
  len :: int
  path :: string

text \<open>What the program does to the outside, in the order it does it.\<close>

datatype event =
    StatSync string
  | Mkdir string
  | ReadFile string
  | Fetch string
  | WriteFile string "byte list" nat
  | Dlopen string "string list"
  | Truncate string jsnum
  | N_open string
  | N_open_write string
  | N_open_write_with_size string int
  | N_write "nat option" int "byte list" int
  | N_read "nat option" int int
  | N_flush "nat option" int int
  | N_close "nat option" int

text \<open>The mutable part: the file system, the effects so far, and the module variable
  \<^verbatim>\<open>libP\<close> of \<^verbatim>\<open>ffi_api.ts\<close> (the memoised outcome of \<^verbatim>\<open>loadLibrary\<close>).\<close>

record world =
  files :: "string \<rightharpoonup> byte list"
  modes :: "string \<rightharpoonup> nat"
  trace :: "event list"
  libP :: "(error + lib) option"

datatype response = NoResponse string | Response bool nat "byte list"

text \<open>The fixed surroundings of one process: \<^verbatim>\<open>Deno.build\<close>, the environment variables,
  the imported \<^verbatim>\<open>deno.json\<close> version and \<^verbatim>\<open>checksums.json\<close>, the digest of
  \<^verbatim>\<open>crypto.subtle\<close>, the network, what each binary exports, and what the native binary
  reports on each call (a length in a \<^verbatim>\<open>BigUint64Array\<close> and a \<^verbatim>\<open>usize\<close> count are 64-bit
  words).\<close>

record sys =
  build_os :: string
  build_arch :: string
  env_get :: "string \<rightharpoonup> string"
  cwd :: string
  VERSION :: string
  checksums :: "string \<rightharpoonup> string"
  digest :: "byte list \<Rightarrow> byte list"
  fetch :: "string \<Rightarrow> response"
  exports :: "string \<rightharpoonup> string list"
  can_write :: "string \<Rightarrow> bool"
  nat_open :: "world \<Rightarrow> string \<Rightarrow> nat option \<times> 64 word"
  nat_open_write :: "world \<Rightarrow> string \<Rightarrow> nat option \<times> 64 word"
  nat_open_write_with_size :: "world \<Rightarrow> string \<Rightarrow> int \<Rightarrow> (nat option \<times> 64 word) \<times> (string \<rightharpoonup> byte list)"
  nat_write :: "world \<Rightarrow> nat option \<Rightarrow> int \<Rightarrow> byte list \<Rightarrow> int \<Rightarrow> 64 word"
  nat_read :: "world \<Rightarrow> nat option \<Rightarrow> int \<Rightarrow> int \<Rightarrow> 64 word"
  nat_flush :: "world \<Rightarrow> nat option \<Rightarrow> int \<Rightarrow> int \<Rightarrow> int"

definition emit :: "event \<Rightarrow> world \<Rightarrow> world" where
  "emit e w = w\<lparr>trace := trace w @ [e]\<rparr>"

section \<open>platform.ts\<close>

definition currentPlatform :: "sys \<Rightarrow> error + (string \<times> string)" where
  "currentPlatform E =
     (let os = build_os E in
      if os \<noteq> ''windows'' \<and> os \<noteq> ''linux'' \<and> os \<noteq> ''darwin'' then Inl (UnsupportedOS os)
      else if build_arch E = ''x86_64'' then Inr (os, ''x86_64'')
      else if build_arch E = ''aarch64'' then Inr (os, ''aarch64'')
      else Inl (UnsupportedArch (build_arch E)))"

definition assetName :: "sys \<Rightarrow> string \<Rightarrow> error + string" where
  "assetName E crateName =
     (case currentPlatform E of
        Inl e \<Rightarrow> Inl e
      | Inr (os, arch) \<Rightarrow>
          (let ext = (if os = ''windows'' then ''dll'' else if os = ''linux'' then ''so'' else ''dylib'');
               osTag = (if os = ''darwin'' then ''macos'' else os)
           in Inr (crateName @ ''-'' @ osTag @ ''-'' @ arch @ ''.'' @ ext)))"

section \<open>loader.ts\<close>

definition OWNER :: string where "OWNER = ''ARyaskov''"
definition REPO :: string where "REPO = ''deno-mmap''"

text \<open>\<^verbatim>\<open>a ?? b\<close> on an environment lookup.\<close>

definition nullish :: "'a option \<Rightarrow> 'a \<Rightarrow> 'a" where
  "nullish a b = (case a of Some x \<Rightarrow> x | None \<Rightarrow> b)"

definition cacheDir :: "sys \<Rightarrow> error + string" where
  "cacheDir E =
     (let home = nullish (env_get E ''HOME'') (nullish (env_get E ''USERPROFILE'') (cwd E)) in
      case currentPlatform E of
        Inl e \<Rightarrow> Inl e
      | Inr (os, arch) \<Rightarrow>
          if os = ''windows'' then
            (let base = nullish (env_get E ''LOCALAPPDATA'') home
             in Inr (base @ [CHR 0x5C] @ ''mmap'' @ [CHR 0x5C] @ ''cache'' @ [CHR 0x5C] @ VERSION E))
          else if os = ''darwin'' then Inr (home @ ''/Library/Caches/mmap/'' @ VERSION E)
          else
            (let base = nullish (env_get E ''XDG_CACHE_HOME'') (home @ ''/.cache'')
             in Inr (base @ ''/mmap/'' @ VERSION E)))"

text \<open>\<^verbatim>\<open>Deno.mkdir\<close> with every failure ignored. Directories are not part of the file map.\<close>

definition ensureDir :: "string \<Rightarrow> world \<Rightarrow> world" where
  "ensureDir p w = emit (Mkdir p) w"

definition hex_digit :: "nat \<Rightarrow> char" where
  "hex_digit n = ''0123456789abcdef'' ! (n mod 16)"

definition hex2 :: "byte \<Rightarrow> string" where
  "hex2 b = [hex_digit (unat b div 16), hex_digit (unat b mod 16)]"

definition sha256Hex :: "sys \<Rightarrow> byte list \<Rightarrow> string" where
  "sha256Hex E bytes = concat (map hex2 (digest E bytes))"

text \<open>\<^verbatim>\<open>String.prototype.toLowerCase\<close> on the ASCII letters.\<close>

definition lower_char :: "char \<Rightarrow> char" where
  "lower_char c =
     (let n = (of_char c :: nat) in if 65 \<le> n \<and> n \<le> 90 then char_of (n + 32) else c)"

definition toLowerCase :: "string \<Rightarrow> string" where
  "toLowerCase s = map lower_char s"

text \<open>\<^verbatim>\<open>Deno.statSync(p).isFile\<close> inside \<^verbatim>\<open>try\<close>: a path that is not a file gives \<open>False\<close>
  whether the call throws or not.\<close>

definition isFile :: "world \<Rightarrow> string \<Rightarrow> bool" where
  "isFile w p = (files w p \<noteq> None)"

definition devPath :: "sys \<Rightarrow> string \<Rightarrow> world \<Rightarrow> (error + string option) \<times> world" where
  "devPath E asset w =
     (case currentPlatform E of
        Inl e \<Rightarrow> (Inl e, w)
      | Inr (os, arch) \<Rightarrow>
          (let osTag = (if os = ''darwin'' then ''macos'' else os);
               p = ''./dist/'' @ asset;
               w1 = emit (StatSync p) w
           in if isFile w1 p then (Inr (Some p), w1)
              else
                (let legacy = ''./dist/'' @ osTag @ ''-'' @ arch @ ''/'' @ asset;
                     w2 = emit (StatSync legacy) w1
                 in if isFile w2 legacy then (Inr (Some legacy), w2)
                    else (Inr None, w2))))"

definition asset_url :: "sys \<Rightarrow> string \<Rightarrow> string" where
  "asset_url E asset =
     ''https://github.com/'' @ OWNER @ ''/'' @ REPO @ ''/releases/download/v'' @ VERSION E @ ''/'' @ asset"

definition downloadAsset :: "sys \<Rightarrow> string \<Rightarrow> world \<Rightarrow> (error + byte list) \<times> world" where
  "downloadAsset E asset w =
     (let url = asset_url E asset;
          w1 = emit (Fetch url) w
      in case fetch E url of
           NoResponse msg \<Rightarrow> (Inl (NetworkError msg), w1)
         | Response ok status body \<Rightarrow>
             if \<not> ok then (Inl (FetchFailed url status), w1) else (Inr body, w1))"

definition sym :: "string list \<Rightarrow> string \<Rightarrow> jsval" where
  "sym ps r = JObject [(''parameters'', JArray (map JString ps)), (''result'', JString r)]"

definition symbolsV2 :: "(string \<times> jsval) list" where
  "symbolsV2 =
     [(''mmap_open'', sym [''buffer'', ''pointer''] ''pointer''),
      (''mmap_open_write'', sym [''buffer'', ''pointer''] ''pointer''),
      (''mmap_open_write_with_size'', sym [''buffer'', ''pointer'', ''usize''] ''pointer''),
      (''mmap_write'', sym [''pointer'', ''usize'', ''pointer'', ''usize''] ''usize''),
      (''mmap_read'', sym [''pointer'', ''pointer'', ''usize'', ''usize''] ''usize''),
      (''mmap_flush'', sym [''pointer'', ''usize'', ''usize''] ''i32''),
      (''mmap_close'', sym [''pointer'', ''usize''] ''void'')]"

definition symbolsV1 :: "(string \<times> jsval) list" where
  "symbolsV1 =
     [(''mmap_open'', sym [''buffer'', ''pointer''] ''pointer''),
      (''mmap_open_write'', sym [''buffer'', ''pointer''] ''pointer''),
      (''mmap_write'', sym [''pointer'', ''usize'', ''pointer'', ''usize''] ''usize''),
      (''mmap_read'', sym [''pointer'', ''pointer'', ''usize'', ''usize''] ''usize''),
      (''mmap_flush'', sym [''pointer'', ''usize'', ''usize''] ''i32''),
      (''mmap_close'', sym [''pointer'', ''usize''] ''void'')]"

text \<open>\<^verbatim>\<open>Deno.dlopen(path, defs)\<close>: it throws unless the binary at \<open>path\<close> can be loaded and
  exports every name of \<open>defs\<close>; the library it returns holds one callable function for each
  name (the type \<^verbatim>\<open>SymbolsV2\<close> of the source), not the definition it was given.\<close>

definition bound_lib :: "string \<Rightarrow> (string \<times> jsval) list \<Rightarrow> lib" where
  "bound_lib p defs = \<lparr>lib_path = p, symbols = map_of (map (\<lambda>(n, d). (n, JFunction n)) defs)\<rparr>"

definition dlopen :: "sys \<Rightarrow> string \<Rightarrow> (string \<times> jsval) list \<Rightarrow> world \<Rightarrow> (error + lib) \<times> world" where
  "dlopen E p defs w =
     (let w1 = emit (Dlopen p (map fst defs)) w in
      case exports E p of
        None \<Rightarrow> (Inl (DlopenFailed p), w1)
      | Some ex \<Rightarrow>
          if set (map fst defs) \<subseteq> set ex
          then (Inr (bound_lib p defs), w1)
          else (Inl (DlopenFailed p), w1))"

text \<open>\<^verbatim>\<open>if (x)\<close> on an optional string: \<^verbatim>\<open>undefined\<close>, \<^verbatim>\<open>null\<close> and the empty string are
  falsy.\<close>

definition truthy_str :: "string option \<Rightarrow> bool" where
  "truthy_str s = (case s of None \<Rightarrow> False | Some x \<Rightarrow> x \<noteq> [])"

text \<open>The file mode \<^verbatim>\<open>0o755\<close>.\<close>

definition mode_755 :: nat where
  "mode_755 = 7 * 64 + 5 * 8 + 5"

text \<open>The \<^verbatim>\<open>catch\<close> block of \<^verbatim>\<open>loadLibrary\<close> (lines 130 to 136): download, verify, persist.\<close>

definition download_tier :: "sys \<Rightarrow> string \<Rightarrow> string \<Rightarrow> world \<Rightarrow> (error + string) \<times> world" where
  "download_tier E asset candidate w =
     (case downloadAsset E asset w of
        (Inl e, w1) \<Rightarrow> (Inl e, w1)
      | (Inr bin, w1) \<Rightarrow>
          (let want = checksums E asset in
           if \<not> truthy_str want then (Inl (NoChecksum asset), w1)
           else
             (let got = sha256Hex E bin in
              if toLowerCase got \<noteq> toLowerCase (the want) then (Inl (ChecksumMismatch asset), w1)
              else
                (let w2 = emit (WriteFile candidate bin mode_755) w1 in
                 if \<not> can_write E candidate then (Inl (WriteFileFailed candidate), w2)
                 else (Inr candidate,
                       w2\<lparr>files := (files w2)(candidate \<mapsto> bin),
                          modes := (modes w2)(candidate \<mapsto> mode_755)\<rparr>)))))"

text \<open>The \<^verbatim>\<open>try\<close> block (lines 122 to 128): \<open>Inl\<close> is the exception that the \<^verbatim>\<open>catch\<close> swallows.\<close>

definition cache_tier :: "sys \<Rightarrow> string \<Rightarrow> string \<Rightarrow> world \<Rightarrow> (error + string) \<times> world" where
  "cache_tier E asset candidate w =
     (let w1 = emit (ReadFile candidate) w in
      case files w1 candidate of
        None \<Rightarrow> (Inl (ReadFileFailed candidate), w1)
      | Some cached \<Rightarrow>
          (let want = checksums E asset in
           if \<not> truthy_str want then (Inl (NoChecksum asset), w1)
           else
             (let got = sha256Hex E cached in
              if toLowerCase got \<noteq> toLowerCase (the want) then (Inl ChecksumMismatchCache, w1)
              else (Inr candidate, w1))))"

text \<open>Lines 106 to 138: the choice of \<^verbatim>\<open>libPath\<close>.\<close>

definition resolve :: "sys \<Rightarrow> string \<Rightarrow> world \<Rightarrow> (error + string) \<times> world" where
  "resolve E asset w =
     (let envOverride = env_get E ''MMAP_LIB_PATH'' in
      case (if truthy_str envOverride then (Inr envOverride, w)
            else (case devPath E asset w of
                    (Inl e, w1) \<Rightarrow> (Inl e, w1)
                  | (Inr dev, w1) \<Rightarrow> (Inr (if truthy_str dev then dev else None), w1))) of
        (Inl e, w1) \<Rightarrow> (Inl e, w1)
      | (Inr libPath, w1) \<Rightarrow>
          if truthy_str libPath then (Inr (the libPath), w1)
          else
            (case cacheDir E of
               Inl e \<Rightarrow> (Inl e, w1)
             | Inr cacheRoot \<Rightarrow>
                 (let w2 = ensureDir cacheRoot w1;
                      candidate = cacheRoot @ ''/'' @ asset
                  in case cache_tier E asset candidate w2 of
                       (Inr p, w3) \<Rightarrow> (Inr p, w3)
                     | (Inl caught, w3) \<Rightarrow> download_tier E asset candidate w3)))"

definition loadLibrary :: "sys \<Rightarrow> world \<Rightarrow> (error + lib) \<times> world" where
  "loadLibrary E w =
     (case assetName E ''mmap_ffi'' of
        Inl e \<Rightarrow> (Inl e, w)
      | Inr asset \<Rightarrow>
          (case resolve E asset w of
             (Inl e, w1) \<Rightarrow> (Inl e, w1)
           | (Inr libPath, w1) \<Rightarrow>
               (case dlopen E libPath symbolsV2 w1 of
                  (Inr l, w2) \<Rightarrow> (Inr l, w2)
                | (Inl caught, w2) \<Rightarrow> dlopen E libPath symbolsV1 w2)))"

section \<open>ffi_api.ts\<close>

text \<open>\<^verbatim>\<open>libP ??= loadLibrary()\<close>: the first outcome, success or failure, is kept.\<close>

definition getLib :: "sys \<Rightarrow> world \<Rightarrow> (error + lib) \<times> world" where
  "getLib E w =
     (case libP w of
        Some r \<Rightarrow> (r, w)
      | None \<Rightarrow> (let (r, w1) = loadLibrary E w in (r, w1\<lparr>libP := Some r\<rparr>)))"

definition ptrValue :: "nat option \<Rightarrow> nat" where
  "ptrValue p = (case p of Some v \<Rightarrow> v | None \<Rightarrow> 0)"

definition open_h :: "sys \<Rightarrow> string \<Rightarrow> world \<Rightarrow> (error + MmapHandle) \<times> world" where
  "open_h E pth w =
     (case getLib E w of
        (Inl e, w1) \<Rightarrow> (Inl e, w1)
      | (Inr l, w1) \<Rightarrow>
          (let (p, n) = nat_open E w1 pth;
               w2 = emit (N_open pth) w1
           in if p = None \<or> ptrValue p = 0 then (Inl (MmapOpenFailed pth), w2)
              else (Inr \<lparr>ptr = p, len = Number_u64 n, path = pth\<rparr>, w2)))"

definition openWrite :: "sys \<Rightarrow> string \<Rightarrow> world \<Rightarrow> (error + MmapHandle) \<times> world" where
  "openWrite E pth w =
     (case getLib E w of
        (Inl e, w1) \<Rightarrow> (Inl e, w1)
      | (Inr l, w1) \<Rightarrow>
          (let (p, n) = nat_open_write E w1 pth;
               w2 = emit (N_open_write pth) w1
           in if p = None \<or> ptrValue p = 0 then (Inl (MmapOpenWriteFailed pth), w2)
              else (Inr \<lparr>ptr = p, len = Number_u64 n, path = pth\<rparr>, w2)))"

text \<open>\<^verbatim>\<open>x?.parameters\<close>: the property of an object literal, \<^verbatim>\<open>undefined\<close> on \<^verbatim>\<open>undefined\<close>
  and on a function, which has no property of that name.\<close>

fun parameters_of :: "jsval \<Rightarrow> jsval" where
  "parameters_of (JObject kvs) = (case map_of kvs ''parameters'' of None \<Rightarrow> JUndefined | Some v \<Rightarrow> v)"
| "parameters_of v = JUndefined"

fun truthy :: "jsval \<Rightarrow> bool" where
  "truthy JUndefined = False"
| "truthy (JString s) = (s \<noteq> [])"
| "truthy v = True"

text \<open>\<^verbatim>\<open>Deno.truncate(path, len)\<close>: the file gets exactly \<open>len\<close> bytes, cut or padded with
  zeros, a negative length counting as 0; it throws when the file does not exist, and an
  infinite length cannot be set.\<close>

definition truncate_file :: "string \<Rightarrow> jsnum \<Rightarrow> world \<Rightarrow> error option \<times> world" where
  "truncate_file pth n w =
     (let w1 = emit (Truncate pth n) w in
      case files w1 pth of
        None \<Rightarrow> (Some (TruncateFailed pth), w1)
      | Some bs \<Rightarrow>
          (case n of
             PosInf \<Rightarrow> (Some (TruncateFailed pth), w1)
           | NegInf \<Rightarrow> (None, w1\<lparr>files := (files w1)(pth \<mapsto> [])\<rparr>)
           | Num v \<Rightarrow>
               (None, w1\<lparr>files := (files w1)(pth \<mapsto> take (nat v) bs @ replicate (nat v - length bs) 0)\<rparr>)))"

definition openWriteWithSize :: "sys \<Rightarrow> string \<Rightarrow> int \<Rightarrow> world \<Rightarrow> (error + MmapHandle) \<times> world" where
  "openWriteWithSize E pth sz w =
     (case getLib E w of
        (Inl e, w1) \<Rightarrow> (Inl e, w1)
      | (Inr l, w1) \<Rightarrow>
          (let want = sz;
               hasNative = parameters_of (case symbols l ''mmap_open_write_with_size'' of
                                            None \<Rightarrow> JUndefined | Some f \<Rightarrow> f)
           in if truthy hasNative then
                (let ((p, n), fs) = nat_open_write_with_size E w1 pth want;
                     w2 = (emit (N_open_write_with_size pth want) w1)\<lparr>files := fs\<rparr>
                 in if p = None \<or> ptrValue p = 0 then (Inl (MmapOpenWriteWithSizeFailed pth), w2)
                    else (Inr \<lparr>ptr = p, len = Number_u64 n, path = pth\<rparr>, w2))
              else
                (case truncate_file pth (Number want) w1 of
                   (Some e, w2) \<Rightarrow> (Inl e, w2)
                 | (None, w2) \<Rightarrow> openWrite E pth w2)))"

text \<open>The handle is a JavaScript object passed by reference: \<open>write_h\<close> (the source's \<^verbatim>\<open>write\<close>), \<open>read\<close>, \<open>flush\<close> and
  \<open>close\<close> return, next to their outcome, the handle as it is after the call.\<close>

definition write_h :: "sys \<Rightarrow> MmapHandle \<Rightarrow> byte list \<Rightarrow> int \<Rightarrow> world \<Rightarrow> (error + int) \<times> MmapHandle \<times> world" where
  "write_h E h src offset w =
     (case getLib E w of
        (Inl e, w1) \<Rightarrow> (Inl e, h, w1)
      | (Inr l, w1) \<Rightarrow>
          if num_gt (num_add (Number offset) (int (length src))) (len h) then (Inl WriteBeyond, h, w1)
          else
            (let n = nat_write E w1 (ptr h) offset src (int (length src))
             in (Inr (Number_u64 n), h, emit (N_write (ptr h) offset src (int (length src))) w1)))"

definition read :: "sys \<Rightarrow> MmapHandle \<Rightarrow> byte list \<Rightarrow> int \<Rightarrow> world \<Rightarrow> (error + int) \<times> MmapHandle \<times> world" where
  "read E h dst offset w =
     (case getLib E w of
        (Inl e, w1) \<Rightarrow> (Inl e, h, w1)
      | (Inr l, w1) \<Rightarrow>
          if num_gt (num_add (Number offset) (int (length dst))) (len h) then (Inl ReadBeyond, h, w1)
          else
            (let n = nat_read E w1 (ptr h) offset (int (length dst))
             in (Inr (Number_u64 n), h, emit (N_read (ptr h) offset (int (length dst))) w1)))"

text \<open>In \<open>flush\<close>, \<^verbatim>\<open>BigInt(x)\<close> throws a \<^verbatim>\<open>RangeError\<close> on an infinite \<open>x\<close>.\<close>

definition flush :: "sys \<Rightarrow> MmapHandle \<Rightarrow> int \<Rightarrow> int option \<Rightarrow> world \<Rightarrow> (error + unit) \<times> MmapHandle \<times> world" where
  "flush E h offset length_opt w =
     (case getLib E w of
        (Inl e, w1) \<Rightarrow> (Inl e, h, w1)
      | (Inr l, w1) \<Rightarrow>
          (case (case length_opt of Some n \<Rightarrow> Num n | None \<Rightarrow> num_sub (len h) (Number offset)) of
             Num n \<Rightarrow>
               (let rc = nat_flush E w1 (ptr h) offset n;
                    w2 = emit (N_flush (ptr h) offset n) w1
                in if rc \<noteq> 0 then (Inl FlushFailed, h, w2) else (Inr (), h, w2))
           | PosInf \<Rightarrow> (Inl RangeError, h, w1)
           | NegInf \<Rightarrow> (Inl RangeError, h, w1)))"

definition close :: "sys \<Rightarrow> MmapHandle \<Rightarrow> world \<Rightarrow> (error + unit) \<times> MmapHandle \<times> world" where
  "close E h w =
     (case getLib E w of
        (Inl e, w1) \<Rightarrow> (Inl e, h, w1)
      | (Inr l, w1) \<Rightarrow> (Inr (), h, emit (N_close (ptr h) (len h)) w1))"

section \<open>Vocabulary of the statements\<close>

text \<open>The events that are calls into the native binary, and those among the effects of a world.\<close>

definition is_native :: "event \<Rightarrow> bool" where
  "is_native e = (case e of N_open p \<Rightarrow> True | N_open_write p \<Rightarrow> True | N_open_write_with_size p n \<Rightarrow> True
     | N_write p off src n \<Rightarrow> True | N_read p off n \<Rightarrow> True | N_flush p off n \<Rightarrow> True | N_close p n \<Rightarrow> True | _ \<Rightarrow> False)"

definition native_calls :: "world \<Rightarrow> event list" where
  "native_calls w = filter is_native (trace w)"

text \<open>The two development paths that \<open>devPath\<close> probes.\<close>

definition flat_path :: "string \<Rightarrow> string" where
  "flat_path asset = ''./dist/'' @ asset"

definition legacy_path :: "string \<Rightarrow> string \<Rightarrow> string \<Rightarrow> string" where
  "legacy_path os arch asset = ''./dist/'' @ (if os = ''darwin'' then ''macos'' else os) @ ''-'' @ arch @ ''/'' @ asset"

text \<open>The check that both the cache path and the download path of \<open>loadLibrary\<close> make on a
  byte buffer: the manifest has a non-empty entry and the digests agree up to letter case.\<close>

definition verified :: "sys \<Rightarrow> string \<Rightarrow> byte list \<Rightarrow> bool" where
  "verified E asset bs =
     (truthy_str (checksums E asset)
      \<and> toLowerCase (sha256Hex E bs) = toLowerCase (the (checksums E asset)))"

text \<open>The world after the two probes of \<open>devPath\<close> have failed, the cache directory has been
  made and the cache candidate has been read.\<close>

definition probed :: "string \<Rightarrow> string \<Rightarrow> string \<Rightarrow> string \<Rightarrow> world \<Rightarrow> world" where
  "probed os arch root asset w =
     emit (ReadFile (root @ ''/'' @ asset))
       (emit (Mkdir root)
          (emit (StatSync (legacy_path os arch asset))
             (emit (StatSync (flat_path asset)) w)))"

text \<open>Whether \<^verbatim>\<open>Deno.dlopen\<close> of a path with a set of symbol definitions succeeds.\<close>

definition binds :: "sys \<Rightarrow> string \<Rightarrow> (string \<times> jsval) list \<Rightarrow> bool" where
  "binds E p defs = (case exports E p of None \<Rightarrow> False | Some ex \<Rightarrow> set (map fst defs) \<subseteq> set ex)"

section \<open>Example processes\<close>

text \<open>A Linux process whose \<^verbatim>\<open>MMAP_LIB_PATH\<close> names a binary that exports the six base
  symbols only, whose native layer reports zero bytes for every copy and maps a file at its
  current length; a world with one 16-byte file and nothing loaded; a handle on that file, and
  two handles whose lengths are doubles from \<open>2 ^ 53\<close> on; the same process with a native layer
  that reports the requested count; the library that binding yields and the world it leaves.\<close>

definition linux_sys :: sys where
  "linux_sys = \<lparr>build_os = ''linux'', build_arch = ''x86_64'',
     env_get = [''MMAP_LIB_PATH'' \<mapsto> ''/opt/libmmap_ffi.so''],
     cwd = ''/work'', VERSION = ''0.2.0'',
     checksums = Map.empty, digest = (\<lambda>bs. bs), fetch = (\<lambda>u. NoResponse ''offline''),
     exports = [''/opt/libmmap_ffi.so'' \<mapsto> map fst symbolsV1],
     can_write = (\<lambda>p. True),
     nat_open = (\<lambda>w p. case files w p of None \<Rightarrow> (None, 0) | Some bs \<Rightarrow> (Some 4096, of_nat (length bs))),
     nat_open_write = (\<lambda>w p. case files w p of None \<Rightarrow> (None, 0) | Some bs \<Rightarrow> (Some 4096, of_nat (length bs))),
     nat_open_write_with_size = (\<lambda>w p n. ((None, 0), files w)),
     nat_write = (\<lambda>w p off src n. 0),
     nat_read = (\<lambda>w p off n. 0),
     nat_flush = (\<lambda>w p off n. 0)\<rparr>"

definition fresh :: world where
  "fresh = \<lparr>files = [''data.bin'' \<mapsto> replicate 16 0], modes = Map.empty, trace = [], libP = None\<rparr>"

definition h16 :: MmapHandle where
  "h16 = \<lparr>ptr = Some 4096, len = 16, path = ''data.bin''\<rparr>"



definition copying_sys :: sys where
  "copying_sys = linux_sys\<lparr>nat_write := (\<lambda>w p off src n. word_of_int n),
     nat_read := (\<lambda>w p off n. word_of_int n)\<rparr>"

definition lib_v1 :: lib where
  "lib_v1 = bound_lib ''/opt/libmmap_ffi.so'' symbolsV1"

definition loaded :: world where
  "loaded = emit (Dlopen ''/opt/libmmap_ffi.so'' (map fst symbolsV1))
              (emit (Dlopen ''/opt/libmmap_ffi.so'' (map fst symbolsV2)) fresh)\<lparr>libP := Some (Inr lib_v1)\<rparr>"

text \<open>The same process over a binary that exports all seven symbols.\<close>

definition full_sys :: sys where
  "full_sys = linux_sys\<lparr>exports := [''/opt/libmmap_ffi.so'' \<mapsto> map fst symbolsV2],
     nat_open_write_with_size := (\<lambda>w p n. case files w p of
         None \<Rightarrow> ((None, 0), files w)
       | Some bs \<Rightarrow> ((Some 4096, of_nat (max (length bs) (nat n))),
                     (files w)(p \<mapsto> bs @ replicate (nat n - length bs) 0)))\<rparr>"

definition lib_v2 :: lib where
  "lib_v2 = bound_lib ''/opt/libmmap_ffi.so'' symbolsV2"

text \<open>A process without override: its cache directory, the asset name, the cache candidate and
  the release address; the manifest lists the asset with the digest \<open>0AFF\<close> (the example digest
  is the identity on byte lists), and the release serves the two bytes that match.\<close>

definition cache_root :: string where
  "cache_root = ''/home/u/.cache/mmap/0.2.0''"

definition so_name :: string where
  "so_name = ''mmap_ffi-linux-x86_64.so''"

definition cache_file :: string where
  "cache_file = cache_root @ ''/'' @ so_name"

definition release_url :: string where
  "release_url = ''https://github.com/ARyaskov/deno-mmap/releases/download/v0.2.0/'' @ so_name"

definition cache_sys :: sys where
  "cache_sys = linux_sys\<lparr>env_get := [''HOME'' \<mapsto> ''/home/u''],
     checksums := [so_name \<mapsto> ''0AFF''],
     fetch := (\<lambda>u. if u = release_url then Response True 200 [0x0a, 0xff] else Response False 404 []),
     exports := [cache_file \<mapsto> map fst symbolsV2, flat_path so_name \<mapsto> map fst symbolsV2]\<rparr>"

definition world_of :: "(string \<rightharpoonup> byte list) \<Rightarrow> world" where
  "world_of fs = \<lparr>files = fs, modes = Map.empty, trace = [], libP = None\<rparr>"

text \<open>The release serving bytes that do not match; a manifest that does not list the asset;
  the same without network.\<close>

definition tampered_sys :: sys where
  "tampered_sys = cache_sys\<lparr>fetch := (\<lambda>u. Response True 200 [0x0b, 0xff])\<rparr>"

definition unlisted_sys :: sys where
  "unlisted_sys = cache_sys\<lparr>checksums := Map.empty\<rparr>"

definition offline_sys :: sys where
  "offline_sys = unlisted_sys\<lparr>fetch := (\<lambda>u. NoResponse ''offline'')\<rparr>"

section \<open>Facts about numbers\<close>

lemma bit_length_nonpos: "n \<le> 0 \<Longrightarrow> bit_length n = 0"
  by (simp add: bit_length.simps [of n])

lemma bit_length_pos: "0 < n \<Longrightarrow> bit_length n = Suc (bit_length (n div 2))"
  by (simp add: bit_length.simps [of n])

lemma bit_length_upper: "n < 2 ^ bit_length n"
proof (induction n rule: bit_length.induct)
  case (1 n)
  show ?case
  proof (cases "n \<le> 0")
    case True
    then show ?thesis by (simp add: bit_length_nonpos)
  next
    case False
    with "1" have "n div 2 < 2 ^ bit_length (n div 2)" by simp
    then have "n < 2 * 2 ^ bit_length (n div 2)" by linarith
    with False show ?thesis by (simp add: bit_length_pos)
  qed
qed

lemma bit_length_lower: "0 < n \<Longrightarrow> 2 ^ (bit_length n - 1) \<le> n"
proof (induction n rule: bit_length.induct)
  case (1 n)
  show ?case
  proof (cases "n div 2 \<le> 0")
    case True
    with "1.prems" have "n = 1" by linarith
    then show ?thesis by (simp add: bit_length_pos bit_length_nonpos)
  next
    case False
    with "1" have ih: "2 ^ (bit_length (n div 2) - 1) \<le> n div 2" by simp
    from False have "0 < bit_length (n div 2)" by (simp add: bit_length_pos)
    then have e: "bit_length n - 1 = Suc (bit_length (n div 2) - 1)"
      using "1.prems" by (simp add: bit_length_pos)
    from ih have "2 * 2 ^ (bit_length (n div 2) - 1) \<le> n" by linarith
    then show ?thesis by (simp only: e power_Suc)
  qed
qed

lemma bit_length_le: "n < 2 ^ k \<Longrightarrow> bit_length n \<le> k"
proof (rule ccontr)
  assume a: "n < 2 ^ k" and nk: "\<not> bit_length n \<le> k"
  then have k: "k \<le> bit_length n - 1" by simp
  have "0 < n" using nk by (cases "n \<le> 0") (simp_all add: bit_length_nonpos)
  then have "2 ^ (bit_length n - 1) \<le> n" by (rule bit_length_lower)
  moreover have "(2::int) ^ k \<le> 2 ^ (bit_length n - 1)" using k by (rule power_increasing) simp
  ultimately show False using a by linarith
qed

lemma rne_small: "m < 2 ^ 53 \<Longrightarrow> rne m = m"
  using bit_length_le [of m 53] by (simp add: rne_def)

lemma rne_ge:
  assumes "2 ^ 53 \<le> m"
  shows "2 ^ 53 \<le> rne m"
proof (cases "bit_length m \<le> 53")
  case True
  then show ?thesis using assms by (simp add: rne_def)
next
  case False
  define k where "k = bit_length m - 53"
  have k: "0 < k" using False by (simp add: k_def)
  define ulp :: int where "ulp = 2 ^ k"
  have ulp2: "2 \<le> ulp"
    using k power_increasing [of 1 k "2::int"] by (simp add: ulp_def)
  have pos: "0 < m" using False by (cases "m \<le> 0") (simp_all add: bit_length_nonpos)
  have e: "bit_length m - 1 = 52 + k" using False by (simp add: k_def)
  have "2 ^ 52 * ulp \<le> m" using bit_length_lower [OF pos] by (simp only: e power_add ulp_def)
  then have "(2 ^ 52 * ulp) div ulp \<le> m div ulp" using ulp2 by (intro zdiv_mono1) auto
  then have q: "2 ^ 52 \<le> m div ulp" using ulp2 by simp
  define q' where "q' = (if 2 * (m mod ulp) < ulp then m div ulp else if ulp < 2 * (m mod ulp) then m div ulp + 1
             else if even (m div ulp) then m div ulp else m div ulp + 1)"
  have q'q: "m div ulp \<le> q'" by (simp add: q'_def)
  have r: "rne m = q' * ulp"
    using False by (simp add: rne_def Let_def k_def [symmetric] ulp_def [symmetric] q'_def)
  have "2 ^ 52 * 2 \<le> q' * ulp"
    using q q'q ulp2 by (intro mult_mono) auto
  then show ?thesis by (simp add: r)
qed

lemma rne_nonneg:
  assumes "0 \<le> m"
  shows "0 \<le> rne m"
proof -
  have d: "0 \<le> m div 2 ^ n" for n
    using assms by (simp add: pos_imp_zdiv_nonneg_iff)
  then have "0 \<le> m div 2 ^ n + 1" for n
    using d [of n] by linarith
  then show ?thesis
    using assms d by (simp add: rne_def Let_def)
qed

lemma rne_u64:
  assumes "0 \<le> m" "m < 2 ^ 64"
  shows "rne m < overflow_at"
proof (cases "bit_length m \<le> 53")
  case True
  have "(2::int) ^ 64 \<le> 2 ^ 1024" by (rule power_increasing) simp_all
  with True assms show ?thesis by (simp only: rne_def overflow_at_def if_True)
next
  case False
  define k where "k = bit_length m - 53"
  define ulp :: int where "ulp = 2 ^ k"
  have up: "0 < ulp" by (simp add: ulp_def)
  have "bit_length m \<le> 64" using assms(2) by (rule bit_length_le)
  then have "k \<le> 11" by (simp add: k_def)
  then have u11: "ulp \<le> 2 ^ 11" unfolding ulp_def by (intro power_increasing) simp_all
  define q' where "q' = (if 2 * (m mod ulp) < ulp then m div ulp else if ulp < 2 * (m mod ulp) then m div ulp + 1
             else if even (m div ulp) then m div ulp else m div ulp + 1)"
  have "q' \<le> m div ulp + 1" by (simp add: q'_def)
  then have "q' * ulp \<le> (m div ulp + 1) * ulp" using up by (simp add: mult_right_mono)
  also have "\<dots> = (m div ulp) * ulp + ulp" by (simp add: algebra_simps)
  also have "\<dots> \<le> m + ulp"
    using div_mult_mod_eq [of m ulp] pos_mod_sign [OF up, of m] by linarith
  also have "\<dots> < 2 ^ 64 + 2 ^ 11" using assms u11 by linarith
  also have "\<dots> \<le> (2::int) ^ 65" by simp
  also have "\<dots> \<le> 2 ^ 1024" by (rule power_increasing) simp_all
  finally have "q' * ulp < overflow_at" by (simp only: overflow_at_def)
  moreover have r: "rne m = q' * ulp"
    using False by (simp add: rne_def Let_def k_def [symmetric] ulp_def [symmetric] q'_def)
  ultimately show ?thesis by simp
qed

lemma rne_pow53: "rne (2 ^ 53) = 2 ^ 53"
  by code_simp

lemma rne_exact: "m \<le> 2 ^ 53 \<Longrightarrow> rne m = m"
  using rne_small [of m] rne_pow53 by (cases "m = 2 ^ 53") simp_all

lemma Number_exact:
  assumes "\<bar>x\<bar> \<le> 2 ^ 53"
  shows "Number x = Num x"
proof -
  have r: "rne \<bar>x\<bar> = \<bar>x\<bar>" using assms by (rule rne_exact)
  have "(2::int) ^ 53 < 2 ^ 1024" by (rule power_strict_increasing) simp_all
  then have "(2::int) ^ 53 < overflow_at" by (simp only: overflow_at_def)
  with assms have "\<not> overflow_at \<le> \<bar>x\<bar>" by linarith
  then show ?thesis by (simp add: Number_def r Let_def)
qed

lemma Number_high:
  assumes "2 ^ 53 \<le> x"
  shows "Number x = PosInf \<or> (\<exists>v. Number x = Num v \<and> 2 ^ 53 \<le> v)"
proof -
  have "(0::int) \<le> 2 ^ 53" by simp
  with assms have "0 \<le> x" by linarith
  then have "2 ^ 53 \<le> rne \<bar>x\<bar>" using assms rne_ge [of x] by simp
  with \<open>0 \<le> x\<close> show ?thesis by (simp add: Number_def Let_def)
qed

lemma Number_low:
  assumes "x \<le> - (2 ^ 53)"
  shows "Number x = NegInf \<or> (\<exists>v. Number x = Num v \<and> v \<le> - (2 ^ 53))"
proof -
  have "(0::int) < 2 ^ 53" by simp
  with assms have "x < 0" by linarith
  moreover have "2 ^ 53 \<le> rne \<bar>x\<bar>" using assms by (intro rne_ge) linarith
  ultimately show ?thesis by (simp add: Number_def Let_def)
qed

lemma Number_nonpos:
  assumes "x \<le> 0"
  shows "Number x = NegInf \<or> (\<exists>v. Number x = Num v \<and> v \<le> 0)"
proof -
  show ?thesis
  proof (cases "x = 0")
    case True
    then have "Number x = Num 0" using Number_exact [of 0] by simp
    then show ?thesis by simp
  next
    case False
    have "0 \<le> rne \<bar>x\<bar>" by (rule rne_nonneg) simp
    with assms False show ?thesis by (simp add: Number_def Let_def)
  qed
qed

lemma bounds_test_exact:
  assumes "0 \<le> l" "l < 2 ^ 53" "0 \<le> L" "L < 2 ^ 53"
  shows "num_gt (num_add (Number off) L) l \<longleftrightarrow> l < off + L"
proof -
  consider (mid) "\<bar>off\<bar> \<le> 2 ^ 53" | (high) "2 ^ 53 < off" | (low) "off < - (2 ^ 53)"
    by linarith
  then show ?thesis
  proof cases
    case mid
    then have n: "Number off = Num off" by (rule Number_exact)
    show ?thesis
    proof (cases "off + L \<le> 2 ^ 53")
      case True
      with mid assms(3) have "\<bar>off + L\<bar> \<le> 2 ^ 53" by linarith
      then have "Number (off + L) = Num (off + L)" by (rule Number_exact)
      then show ?thesis by (simp add: n num_add_def num_gt_def)
    next
      case False
      then have "2 ^ 53 \<le> off + L" by simp
      then have "num_gt (Number (off + L)) l"
        using Number_high [of "off + L"] assms(2) by (auto simp: num_gt_def)
      moreover have "l < off + L" using False assms(2) by linarith
      ultimately show ?thesis by (simp add: n num_add_def)
    qed
  next
    case high
    then have h: "Number off = PosInf \<or> (\<exists>v. Number off = Num v \<and> 2 ^ 53 \<le> v)"
      by (intro Number_high) simp
    have "num_gt (num_add (Number off) L) l"
    proof -
      from h show ?thesis
      proof
        assume "Number off = PosInf"
        then show ?thesis by (simp add: num_add_def num_gt_def)
      next
        assume "\<exists>v. Number off = Num v \<and> 2 ^ 53 \<le> v"
        then obtain v where v: "Number off = Num v" "2 ^ 53 \<le> v" by blast
        then have "2 ^ 53 \<le> v + L" using assms(3) by linarith
        then have "num_gt (Number (v + L)) l"
          using Number_high [of "v + L"] assms(2) by (auto simp: num_gt_def)
        then show ?thesis by (simp add: v num_add_def)
      qed
    qed
    moreover have "l < off + L" using high assms by linarith
    ultimately show ?thesis by simp
  next
    case low
    then have h: "Number off = NegInf \<or> (\<exists>v. Number off = Num v \<and> v \<le> - (2 ^ 53))"
      by (intro Number_low) simp
    have "\<not> num_gt (num_add (Number off) L) l"
    proof -
      from h show ?thesis
      proof
        assume "Number off = NegInf"
        then show ?thesis by (simp add: num_add_def num_gt_def)
      next
        assume "\<exists>v. Number off = Num v \<and> v \<le> - (2 ^ 53)"
        then obtain v where v: "Number off = Num v" "v \<le> - (2 ^ 53)" by blast
        then have "v + L \<le> 0" using assms(4) by linarith
        then have "\<not> num_gt (Number (v + L)) l"
          using Number_nonpos [of "v + L"] assms(1) by (auto simp: num_gt_def)
        then show ?thesis by (simp add: v num_add_def)
      qed
    qed
    moreover have "\<not> l < off + L" using low assms by linarith
    ultimately show ?thesis by simp
  qed
qed

lemma Number_u64_finite: "Number (uint n) = Num (Number_u64 n)"
proof -
  have "uint n < 2 ^ 64" using uint_lt2p [of n] by simp
  then have "rne (uint n) < overflow_at" by (intro rne_u64) simp_all
  then show ?thesis by (simp add: Number_def Number_u64_def)
qed

lemma Number_u64_exact: "uint n \<le> 2 ^ 53 \<Longrightarrow> Number_u64 n = uint n"
  by (simp add: Number_u64_def rne_exact)

lemma Number_u64_small: "Number_u64 0 = 0" "Number_u64 2 = 2" "Number_u64 4 = 4" "Number_u64 16 = 16"
  by (simp_all add: Number_u64_exact)

section \<open>Basic facts\<close>


lemma native_calls_libP [simp]: "native_calls (w\<lparr>libP := r\<rparr>) = native_calls w"
  by (simp add: native_calls_def)

lemma native_calls_files [simp]: "native_calls (w\<lparr>files := r\<rparr>) = native_calls w"
  by (simp add: native_calls_def)

lemma native_calls_modes [simp]: "native_calls (w\<lparr>modes := r\<rparr>) = native_calls w"
  by (simp add: native_calls_def)









lemma getLib_memo: "getLib E w = (r, w1) \<Longrightarrow> libP w1 = Some r"
  by (auto simp: getLib_def split: option.splits prod.splits)

lemma getLib_again: "libP w = Some r \<Longrightarrow> getLib E w = (r, w)"
  by (simp add: getLib_def)

lemma libP_emit: "libP (emit e w) = libP w"
  by (simp add: emit_def)

lemma asset_linux: "assetName linux_sys ''mmap_ffi'' = Inr ''mmap_ffi-linux-x86_64.so''"
  by (simp add: assetName_def currentPlatform_def linux_sys_def)

lemma resolve_linux: "resolve linux_sys a fresh = (Inr ''/opt/libmmap_ffi.so'', fresh)"
  by (simp add: resolve_def linux_sys_def truthy_str_def)

lemma exports_linux: "exports linux_sys ''/opt/libmmap_ffi.so'' = Some (map fst symbolsV1)"
  by (simp add: linux_sys_def)

lemma dlopen_v2_linux: "dlopen linux_sys ''/opt/libmmap_ffi.so'' symbolsV2 w
   = (Inl (DlopenFailed ''/opt/libmmap_ffi.so''), emit (Dlopen ''/opt/libmmap_ffi.so'' (map fst symbolsV2)) w)"
  by (simp add: dlopen_def exports_linux Let_def) (simp add: symbolsV1_def symbolsV2_def)

lemma dlopen_v1_linux: "dlopen linux_sys ''/opt/libmmap_ffi.so'' symbolsV1 w
   = (Inr lib_v1, emit (Dlopen ''/opt/libmmap_ffi.so'' (map fst symbolsV1)) w)"
  by (simp add: dlopen_def exports_linux Let_def lib_v1_def)

lemma libP_fresh: "libP fresh = None"
  by (simp add: fresh_def)

lemma load_linux: "getLib linux_sys fresh = (Inr lib_v1, loaded)"
  by (simp add: getLib_def libP_fresh loadLibrary_def asset_linux resolve_linux dlopen_v2_linux dlopen_v1_linux loaded_def)

lemma getLib_loaded: "getLib linux_sys loaded = (Inr lib_v1, loaded)"
  by (simp add: getLib_def loaded_def emit_def)

section \<open>Asset naming\<close>

text \<open>C9: on each of the three supported operating systems with either supported architecture the
  asset name is \<open>base-osTag-arch.ext\<close>, with \<open>dll\<close> on windows, \<open>so\<close> on linux and, for the
  label \<open>darwin\<close>, the tag \<open>macos\<close> and \<open>dylib\<close>; any other operating system or architecture is
  an unsupported-platform error.\<close>

theorem assetName_convention:
  "(build_os E = ''windows'' \<and> build_arch E \<in> {''x86_64'', ''aarch64''} \<longrightarrow>
      assetName E b = Inr (b @ ''-windows-'' @ build_arch E @ ''.dll''))
   \<and> (build_os E = ''linux'' \<and> build_arch E \<in> {''x86_64'', ''aarch64''} \<longrightarrow>
      assetName E b = Inr (b @ ''-linux-'' @ build_arch E @ ''.so''))
   \<and> (build_os E = ''darwin'' \<and> build_arch E \<in> {''x86_64'', ''aarch64''} \<longrightarrow>
      assetName E b = Inr (b @ ''-macos-'' @ build_arch E @ ''.dylib''))
   \<and> (build_os E \<notin> {''windows'', ''linux'', ''darwin''} \<longrightarrow>
      currentPlatform E = Inl (UnsupportedOS (build_os E)) \<and> assetName E b = Inl (UnsupportedOS (build_os E)))
   \<and> (build_os E \<in> {''windows'', ''linux'', ''darwin''} \<and> build_arch E \<notin> {''x86_64'', ''aarch64''} \<longrightarrow>
      currentPlatform E = Inl (UnsupportedArch (build_arch E)) \<and> assetName E b = Inl (UnsupportedArch (build_arch E)))"
  by (auto simp: assetName_def currentPlatform_def Let_def)

text \<open>The convention on Linux, macOS and Windows, and three unsupported platforms.\<close>

theorem assetName_convention_witness:
  "assetName linux_sys ''mmap_ffi'' = Inr ''mmap_ffi-linux-x86_64.so''
   \<and> assetName (linux_sys\<lparr>build_os := ''darwin'', build_arch := ''aarch64''\<rparr>) ''mmap_ffi'' = Inr ''mmap_ffi-macos-aarch64.dylib''
   \<and> assetName (linux_sys\<lparr>build_os := ''windows''\<rparr>) ''mmap_ffi'' = Inr ''mmap_ffi-windows-x86_64.dll''
   \<and> assetName (linux_sys\<lparr>build_os := ''freebsd''\<rparr>) ''mmap_ffi'' = Inl (UnsupportedOS ''freebsd'')
   \<and> assetName (linux_sys\<lparr>build_os := ''macos''\<rparr>) ''mmap_ffi'' = Inl (UnsupportedOS ''macos'')
   \<and> assetName (linux_sys\<lparr>build_arch := ''riscv64''\<rparr>) ''mmap_ffi'' = Inl (UnsupportedArch ''riscv64'')"
  using assetName_convention [of linux_sys "''mmap_ffi''"]
        assetName_convention [of "linux_sys\<lparr>build_os := ''darwin'', build_arch := ''aarch64''\<rparr>" "''mmap_ffi''"]
        assetName_convention [of "linux_sys\<lparr>build_os := ''windows''\<rparr>" "''mmap_ffi''"]
        assetName_convention [of "linux_sys\<lparr>build_os := ''freebsd''\<rparr>" "''mmap_ffi''"]
        assetName_convention [of "linux_sys\<lparr>build_os := ''macos''\<rparr>" "''mmap_ffi''"]
        assetName_convention [of "linux_sys\<lparr>build_arch := ''riscv64''\<rparr>" "''mmap_ffi''"]
  by (simp add: linux_sys_def)

section \<open>Bounds checks of the handle protocol\<close>




section \<open>Byte counts\<close>

text \<open>C2, as stated, fails: a native layer that reports 0 bytes for an in-bounds 3-byte copy makes
  \<open>write\<close> and \<open>read\<close> return 0, with no error.\<close>

theorem short_count_returned_counterexample:
  "0 + int (length [1, 2, 3 :: byte]) \<le> len h16
   \<and> nat_write linux_sys loaded (ptr h16) 0 [1, 2, 3] 3 = 0
   \<and> write_h linux_sys h16 [1, 2, 3] 0 loaded = (Inr 0, h16, emit (N_write (ptr h16) 0 [1, 2, 3] 3) loaded)
   \<and> nat_read linux_sys loaded (ptr h16) 0 3 = 0
   \<and> read linux_sys h16 [1, 2, 3] 0 loaded = (Inr 0, h16, emit (N_read (ptr h16) 0 3) loaded)"
proof -
  have t: "\<not> num_gt (num_add (Number 0) 3) 16" by code_simp
  have l: "len h16 = 16" by (simp add: h16_def)
  have n: "nat_write linux_sys w p off src k = 0" "nat_read linux_sys w p off k = 0" for w p off src k
    by (simp_all add: linux_sys_def)
  show ?thesis
    using t by (simp add: write_h_def read_def getLib_loaded l n Number_u64_small)
qed

text \<open>C2, amended: on a handle whose length is at least 0 and below \<open>2 ^ 53\<close>, an in-bounds
  \<open>write\<close> or \<open>read\<close> on a bound library succeeds and returns \<^verbatim>\<open>Number(n)\<close> for the count
  \<open>n\<close> that the native layer reports: \<open>n\<close> itself up to \<open>2 ^ 53\<close>, the nearest double above. The
  count is not compared with the requested length.\<close>

theorem native_count_returned:
  assumes "getLib E w = (Inr l, w1)"
    and "0 \<le> len h" and "len h < 2 ^ 53" and "length buf < 2 ^ 53"
    and "offset + int (length buf) \<le> len h"
  shows "fst (write_h E h buf offset w) = Inr (Number_u64 (nat_write E w1 (ptr h) offset buf (int (length buf))))
       \<and> fst (read E h buf offset w) = Inr (Number_u64 (nat_read E w1 (ptr h) offset (int (length buf))))
       \<and> (\<forall>n. Number (uint n) = Num (Number_u64 n) \<and> (uint n \<le> 2 ^ 53 \<longrightarrow> Number_u64 n = uint n))"
proof -
  have L: "int (length buf) < 2 ^ 53" using assms(4) by (simp flip: of_nat_less_iff)
  have "num_gt (num_add (Number offset) (int (length buf))) (len h)
             \<longleftrightarrow> len h < offset + int (length buf)"
    using assms(2,3) L by (intro bounds_test_exact) simp_all
  with assms(5) have nt: "\<not> num_gt (num_add (Number offset) (int (length buf))) (len h)" by simp
  show ?thesis
    using assms(1) nt by (simp add: write_h_def read_def Let_def Number_u64_finite Number_u64_exact)
qed

text \<open>An in-bounds 2-byte copy with a native layer that reports 2 bytes.\<close>

theorem native_count_returned_witness:
  "getLib copying_sys loaded = (Inr lib_v1, loaded) \<and> 4 + int (length [7, 8 :: byte]) \<le> len h16
   \<and> fst (write_h copying_sys h16 [7, 8] 4 loaded) = Inr 2
   \<and> fst (read copying_sys h16 [7, 8] 4 loaded) = Inr 2"
proof -
  have a: "getLib copying_sys loaded = (Inr lib_v1, loaded)"
    by (rule getLib_again) (simp add: loaded_def)
  have h0: "0 \<le> len h16" and h1: "len h16 < 2 ^ 53" by (simp_all add: h16_def)
  have b2: "length [7, 8 :: byte] < 2 ^ 53" by simp
  have b: "4 + int (length [7, 8 :: byte]) \<le> len h16" by (simp add: h16_def)
  have n: "nat_write copying_sys w p off src 2 = 2" "nat_read copying_sys w p off 2 = 2" for w p off src
    by (simp_all add: copying_sys_def)
  from native_count_returned [OF a h0 h1 b2 b]
  have "fst (write_h copying_sys h16 [7, 8] 4 loaded) = Inr (Number_u64 2)"
    and "fst (read copying_sys h16 [7, 8] 4 loaded) = Inr (Number_u64 2)"
    by (simp_all add: n)
  with a b show ?thesis by (simp add: Number_u64_small)
qed

section \<open>The handle is never written\<close>

text \<open>C10: \<open>write\<close>, \<open>read\<close>, \<open>flush\<close> and \<open>close\<close> leave the handle as it was, on success
  and on failure; \<open>close\<close> invalidates nothing, so closing the handle again issues the same
  native call once more.\<close>

theorem handle_not_mutated:
  "fst (snd (write_h E h buf offset w)) = h
   \<and> fst (snd (read E h buf offset w)) = h
   \<and> fst (snd (flush E h offset n w)) = h
   \<and> fst (snd (close E h w)) = h
   \<and> (\<forall>l w1. getLib E w = (Inr l, w1) \<longrightarrow>
        close E h w = (Inr (), h, emit (N_close (ptr h) (len h)) w1)
      \<and> close E (fst (snd (close E h w))) (snd (snd (close E h w)))
          = (Inr (), h, emit (N_close (ptr h) (len h)) (emit (N_close (ptr h) (len h)) w1)))"
proof (intro conjI allI impI)
  show "fst (snd (write_h E h buf offset w)) = h"
    by (simp add: write_h_def Let_def split: prod.splits sum.splits)
  show "fst (snd (read E h buf offset w)) = h"
    by (simp add: read_def Let_def split: prod.splits sum.splits)
  show "fst (snd (flush E h offset n w)) = h"
    by (simp add: flush_def Let_def split: prod.splits sum.splits option.splits jsnum.splits)
  show "fst (snd (close E h w)) = h"
    by (simp add: close_def split: prod.splits sum.splits)
next
  fix l w1 assume g: "getLib E w = (Inr l, w1)"
  then show c: "close E h w = (Inr (), h, emit (N_close (ptr h) (len h)) w1)"
    by (simp add: close_def)
  have "libP (emit (N_close (ptr h) (len h)) w1) = Some (Inr l)"
    using getLib_memo [OF g] by (simp add: libP_emit)
  then have "getLib E (emit (N_close (ptr h) (len h)) w1) = (Inr l, emit (N_close (ptr h) (len h)) w1)"
    by (rule getLib_again)
  then show "close E (fst (snd (close E h w))) (snd (snd (close E h w)))
          = (Inr (), h, emit (N_close (ptr h) (len h)) (emit (N_close (ptr h) (len h)) w1))"
    by (simp add: c) (simp add: close_def)
qed

text \<open>Closing a 16-byte handle twice.\<close>

theorem handle_not_mutated_witness:
  "fst (snd (close linux_sys h16 fresh)) = h16
   \<and> close linux_sys h16 fresh = (Inr (), h16, emit (N_close (Some 4096) 16) loaded)
   \<and> close linux_sys h16 (emit (N_close (Some 4096) 16) loaded)
       = (Inr (), h16, emit (N_close (Some 4096) 16) (emit (N_close (Some 4096) 16) loaded))"
proof -
  have g: "getLib linux_sys fresh = (Inr lib_v1, loaded)" by (rule load_linux)
  have p: "ptr h16 = Some 4096" "len h16 = 16" by (simp_all add: h16_def)
  from handle_not_mutated [of linux_sys h16 "[]" 0 fresh None] g
  have c0: "fst (snd (close linux_sys h16 fresh)) = h16"
    and c1: "close linux_sys h16 fresh = (Inr (), h16, emit (N_close (ptr h16) (len h16)) loaded)"
    and c2: "close linux_sys (fst (snd (close linux_sys h16 fresh))) (snd (snd (close linux_sys h16 fresh)))
          = (Inr (), h16, emit (N_close (ptr h16) (len h16)) (emit (N_close (ptr h16) (len h16)) loaded))"
    by blast+
  from c2 have c3: "close linux_sys h16 (emit (N_close (ptr h16) (len h16)) loaded)
          = (Inr (), h16, emit (N_close (ptr h16) (len h16)) (emit (N_close (ptr h16) (len h16)) loaded))"
    by (simp add: c1)
  from c0 c1 c3 show ?thesis by (simp add: p)
qed

section \<open>Library resolution\<close>

lemma isFile_emit [simp]: "isFile (emit e w) p = isFile w p"
  by (simp add: isFile_def emit_def)

lemma files_emit [simp]: "files (emit e w) = files w"
  by (simp add: emit_def)

lemma modes_emit [simp]: "modes (emit e w) = modes w"
  by (simp add: emit_def)

lemma trace_emit [simp]: "trace (emit e w) = trace w @ [e]"
  by (simp add: emit_def)

lemma resolve_override:
  "truthy_str (env_get E ''MMAP_LIB_PATH'') \<Longrightarrow> resolve E a w = (Inr (the (env_get E ''MMAP_LIB_PATH'')), w)"
  by (simp add: resolve_def)

lemma devPath_eq:
  "currentPlatform E = Inr (os, arch) \<Longrightarrow>
   devPath E a w =
     (if isFile w (flat_path a) then (Inr (Some (flat_path a)), emit (StatSync (flat_path a)) w)
      else if isFile w (legacy_path os arch a)
           then (Inr (Some (legacy_path os arch a)), emit (StatSync (legacy_path os arch a)) (emit (StatSync (flat_path a)) w))
           else (Inr None, emit (StatSync (legacy_path os arch a)) (emit (StatSync (flat_path a)) w)))"
  by (simp add: devPath_def Let_def flat_path_def legacy_path_def)

lemma cache_tier_eq:
  "cache_tier E a c w =
     (case files w c of
        None \<Rightarrow> (Inl (ReadFileFailed c), emit (ReadFile c) w)
      | Some bs \<Rightarrow>
          if verified E a bs then (Inr c, emit (ReadFile c) w)
          else (Inl (if truthy_str (checksums E a) then ChecksumMismatchCache else NoChecksum a), emit (ReadFile c) w))"
  by (simp add: cache_tier_def Let_def verified_def split: option.splits)

lemma resolve_tiers:
  assumes "\<not> truthy_str (env_get E ''MMAP_LIB_PATH'')" "currentPlatform E = Inr (os, arch)"
    "cacheDir E = Inr root"
  shows "resolve E a w =
     (if isFile w (flat_path a) then (Inr (flat_path a), emit (StatSync (flat_path a)) w)
      else if isFile w (legacy_path os arch a)
           then (Inr (legacy_path os arch a), emit (StatSync (legacy_path os arch a)) (emit (StatSync (flat_path a)) w))
      else if (\<exists>bs. files w (root @ ''/'' @ a) = Some bs \<and> verified E a bs)
           then (Inr (root @ ''/'' @ a), probed os arch root a w)
           else download_tier E a (root @ ''/'' @ a) (probed os arch root a w))"
proof -
  have t1: "truthy_str (Some (flat_path a))" by (simp add: truthy_str_def flat_path_def)
  have t2: "truthy_str (Some (legacy_path os arch a))" by (simp add: truthy_str_def legacy_path_def)
  have t3: "\<not> truthy_str None" by (simp add: truthy_str_def)
  show ?thesis
    using assms t1 t2 t3
    by (simp add: resolve_def devPath_eq cache_tier_eq ensureDir_def probed_def Let_def split: option.splits)
qed

lemma download_tier_eq:
  "download_tier E a c w =
     (case fetch E (asset_url E a) of
        NoResponse msg \<Rightarrow> (Inl (NetworkError msg), emit (Fetch (asset_url E a)) w)
      | Response ok st bin \<Rightarrow>
          if \<not> ok then (Inl (FetchFailed (asset_url E a) st), emit (Fetch (asset_url E a)) w)
          else if \<not> truthy_str (checksums E a) then (Inl (NoChecksum a), emit (Fetch (asset_url E a)) w)
          else if \<not> verified E a bin then (Inl (ChecksumMismatch a), emit (Fetch (asset_url E a)) w)
          else if \<not> can_write E c
               then (Inl (WriteFileFailed c), emit (WriteFile c bin mode_755) (emit (Fetch (asset_url E a)) w))
          else (Inr c, (emit (WriteFile c bin mode_755) (emit (Fetch (asset_url E a)) w))
                         \<lparr>files := (files w)(c \<mapsto> bin), modes := (modes w)(c \<mapsto> mode_755)\<rparr>))"
  by (simp add: download_tier_def downloadAsset_def Let_def verified_def split: response.splits)

lemma cp_cache: "currentPlatform cache_sys = Inr (''linux'', ''x86_64'')"
  by (simp add: currentPlatform_def cache_sys_def linux_sys_def)

lemma cd_cache: "cacheDir cache_sys = Inr cache_root"
  by (simp add: cacheDir_def cp_cache) (simp add: cache_sys_def linux_sys_def nullish_def cache_root_def)

lemma ov_cache: "\<not> truthy_str (env_get cache_sys ''MMAP_LIB_PATH'')"
  by (simp add: cache_sys_def truthy_str_def)

lemma sha_cache:
  "toLowerCase (sha256Hex cache_sys [0x0a, 0xff]) = ''0aff''"
  "toLowerCase (sha256Hex cache_sys [0x0b, 0xff]) = ''0bff''"
  "toLowerCase ''0AFF'' = ''0aff''"
  by code_simp+

lemma manifest_cache: "checksums cache_sys so_name = Some ''0AFF''"
  by (simp add: cache_sys_def)

lemma ver_cache: "verified cache_sys so_name [0x0a, 0xff]" "\<not> verified cache_sys so_name [0x0b, 0xff]"
  by (simp_all add: verified_def manifest_cache truthy_str_def sha_cache)

lemma url_cache: "asset_url cache_sys so_name = release_url"
  by (simp add: asset_url_def OWNER_def REPO_def release_url_def cache_sys_def linux_sys_def)

text \<open>C4: on a supported platform the path is chosen in a fixed order, the first match winning.
  A non-empty \<^verbatim>\<open>MMAP_LIB_PATH\<close> is returned as it is and nothing is probed, read, hashed or
  fetched. Otherwise \<^verbatim>\<open>./dist/asset\<close> is returned if it is a file, after that probe only; then
  \<^verbatim>\<open>./dist/osTag-arch/asset\<close>, after the two probes only. Otherwise the cache candidate is
  returned when its bytes pass the manifest check, with no fetch and no write; in every
  remaining case the download runs, its fetch being the next effect.\<close>

theorem resolution_priority:
  assumes "currentPlatform E = Inr (os, arch)" and "cacheDir E = Inr root"
  shows
   "(truthy_str (env_get E ''MMAP_LIB_PATH'') \<longrightarrow>
       resolve E a w = (Inr (the (env_get E ''MMAP_LIB_PATH'')), w))
  \<and> (\<not> truthy_str (env_get E ''MMAP_LIB_PATH'') \<and> isFile w (flat_path a) \<longrightarrow>
       resolve E a w = (Inr (flat_path a), emit (StatSync (flat_path a)) w))
  \<and> (\<not> truthy_str (env_get E ''MMAP_LIB_PATH'') \<and> \<not> isFile w (flat_path a)
        \<and> isFile w (legacy_path os arch a) \<longrightarrow>
       resolve E a w = (Inr (legacy_path os arch a),
                        emit (StatSync (legacy_path os arch a)) (emit (StatSync (flat_path a)) w)))
  \<and> (\<not> truthy_str (env_get E ''MMAP_LIB_PATH'') \<and> \<not> isFile w (flat_path a)
        \<and> \<not> isFile w (legacy_path os arch a)
        \<and> (\<exists>bs. files w (root @ ''/'' @ a) = Some bs \<and> verified E a bs) \<longrightarrow>
       resolve E a w = (Inr (root @ ''/'' @ a), probed os arch root a w))
  \<and> (\<not> truthy_str (env_get E ''MMAP_LIB_PATH'') \<and> \<not> isFile w (flat_path a)
        \<and> \<not> isFile w (legacy_path os arch a)
        \<and> \<not> (\<exists>bs. files w (root @ ''/'' @ a) = Some bs \<and> verified E a bs) \<longrightarrow>
       resolve E a w = download_tier E a (root @ ''/'' @ a) (probed os arch root a w)
     \<and> (\<exists>es. trace (snd (resolve E a w))
               = trace (probed os arch root a w) @ Fetch (asset_url E a) # es))"
proof (intro conjI impI)
  assume "truthy_str (env_get E ''MMAP_LIB_PATH'')"
  then show "resolve E a w = (Inr (the (env_get E ''MMAP_LIB_PATH'')), w)"
    by (rule resolve_override)
next
  assume "\<not> truthy_str (env_get E ''MMAP_LIB_PATH'') \<and> isFile w (flat_path a)"
  then show "resolve E a w = (Inr (flat_path a), emit (StatSync (flat_path a)) w)"
    using assms by (simp add: resolve_tiers)
next
  assume "\<not> truthy_str (env_get E ''MMAP_LIB_PATH'') \<and> \<not> isFile w (flat_path a)
        \<and> isFile w (legacy_path os arch a)"
  then show "resolve E a w = (Inr (legacy_path os arch a),
                        emit (StatSync (legacy_path os arch a)) (emit (StatSync (flat_path a)) w))"
    using assms by (simp add: resolve_tiers)
next
  assume "\<not> truthy_str (env_get E ''MMAP_LIB_PATH'') \<and> \<not> isFile w (flat_path a)
        \<and> \<not> isFile w (legacy_path os arch a)
        \<and> (\<exists>bs. files w (root @ ''/'' @ a) = Some bs \<and> verified E a bs)"
  then show "resolve E a w = (Inr (root @ ''/'' @ a), probed os arch root a w)"
    using assms by (simp add: resolve_tiers)
next
  assume h: "\<not> truthy_str (env_get E ''MMAP_LIB_PATH'') \<and> \<not> isFile w (flat_path a)
        \<and> \<not> isFile w (legacy_path os arch a)
        \<and> \<not> (\<exists>bs. files w (root @ ''/'' @ a) = Some bs \<and> verified E a bs)"
  then show r: "resolve E a w = download_tier E a (root @ ''/'' @ a) (probed os arch root a w)"
    using assms by (auto simp: resolve_tiers)
  show "\<exists>es. trace (snd (resolve E a w))
               = trace (probed os arch root a w) @ Fetch (asset_url E a) # es"
    unfolding r
    by (simp add: download_tier_eq split: response.splits)
qed

lemma cp_linux: "currentPlatform linux_sys = Inr (''linux'', ''x86_64'')"
  by (simp add: currentPlatform_def linux_sys_def)

lemma cd_linux: "\<exists>r. cacheDir linux_sys = Inr r"
  by (simp add: cacheDir_def cp_linux)

lemma ov_linux: "truthy_str (env_get linux_sys ''MMAP_LIB_PATH'')" "the (env_get linux_sys ''MMAP_LIB_PATH'') = ''/opt/libmmap_ffi.so''"
  by (simp_all add: linux_sys_def truthy_str_def)

text \<open>One process for each tier: override, flat artifact, nested artifact, verified cache, download.\<close>

theorem resolution_priority_witness:
  "resolve linux_sys so_name (world_of [flat_path so_name \<mapsto> [1], cache_file \<mapsto> [0x0a, 0xff]])
     = (Inr ''/opt/libmmap_ffi.so'', world_of [flat_path so_name \<mapsto> [1], cache_file \<mapsto> [0x0a, 0xff]])
   \<and> fst (resolve cache_sys so_name (world_of [flat_path so_name \<mapsto> [1], cache_file \<mapsto> [0x0a, 0xff]]))
     = Inr (flat_path so_name)
   \<and> fst (resolve cache_sys so_name
            (world_of [legacy_path ''linux'' ''x86_64'' so_name \<mapsto> [1], cache_file \<mapsto> [0x0a, 0xff]]))
     = Inr (legacy_path ''linux'' ''x86_64'' so_name)
   \<and> resolve cache_sys so_name (world_of [cache_file \<mapsto> [0x0a, 0xff]])
     = (Inr cache_file, probed ''linux'' ''x86_64'' cache_root so_name (world_of [cache_file \<mapsto> [0x0a, 0xff]]))
   \<and> resolve cache_sys so_name (world_of Map.empty)
     = download_tier cache_sys so_name cache_file (probed ''linux'' ''x86_64'' cache_root so_name (world_of Map.empty))"
proof -
  obtain r where r: "cacheDir linux_sys = Inr r" using cd_linux by blast
  have ne: "flat_path so_name \<noteq> cache_file" "legacy_path ''linux'' ''x86_64'' so_name \<noteq> cache_file"
    "legacy_path ''linux'' ''x86_64'' so_name \<noteq> flat_path so_name"
    by (simp_all add: flat_path_def legacy_path_def cache_file_def cache_root_def so_name_def)
  have 1: "resolve linux_sys so_name (world_of [flat_path so_name \<mapsto> [1], cache_file \<mapsto> [0x0a, 0xff]])
     = (Inr ''/opt/libmmap_ffi.so'', world_of [flat_path so_name \<mapsto> [1], cache_file \<mapsto> [0x0a, 0xff]])"
    using resolution_priority [OF cp_linux r, of so_name "world_of [flat_path so_name \<mapsto> [1], cache_file \<mapsto> [0x0a, 0xff]]"] ov_linux
    by simp
  have 2: "fst (resolve cache_sys so_name (world_of [flat_path so_name \<mapsto> [1], cache_file \<mapsto> [0x0a, 0xff]]))
     = Inr (flat_path so_name)"
    using resolution_priority [OF cp_cache cd_cache, of so_name "world_of [flat_path so_name \<mapsto> [1], cache_file \<mapsto> [0x0a, 0xff]]"] ov_cache ne
    by (simp add: isFile_def world_of_def)
  have 3: "fst (resolve cache_sys so_name
            (world_of [legacy_path ''linux'' ''x86_64'' so_name \<mapsto> [1], cache_file \<mapsto> [0x0a, 0xff]]))
     = Inr (legacy_path ''linux'' ''x86_64'' so_name)"
    using resolution_priority [OF cp_cache cd_cache, of so_name "world_of [legacy_path ''linux'' ''x86_64'' so_name \<mapsto> [1], cache_file \<mapsto> [0x0a, 0xff]]"] ov_cache ne
    by (simp add: isFile_def world_of_def)
  have 4: "resolve cache_sys so_name (world_of [cache_file \<mapsto> [0x0a, 0xff]])
     = (Inr cache_file, probed ''linux'' ''x86_64'' cache_root so_name (world_of [cache_file \<mapsto> [0x0a, 0xff]]))"
    using resolution_priority [OF cp_cache cd_cache, of so_name "world_of [cache_file \<mapsto> [0x0a, 0xff]]"] ov_cache ne ver_cache
    by (simp add: isFile_def world_of_def cache_file_def)
  have 5: "resolve cache_sys so_name (world_of Map.empty)
     = download_tier cache_sys so_name cache_file (probed ''linux'' ''x86_64'' cache_root so_name (world_of Map.empty))"
    using resolution_priority [OF cp_cache cd_cache, of so_name "world_of Map.empty"] ov_cache
    by (simp add: isFile_def world_of_def cache_file_def)
  from 1 2 3 4 5 show ?thesis by blast
qed

lemma download_tier_same:
  "trace v = trace w \<Longrightarrow>
     fst (download_tier E a c v) = fst (download_tier E a c w)
   \<and> trace (snd (download_tier E a c v)) = trace (snd (download_tier E a c w))"
  by (simp add: download_tier_eq split: response.splits)

lemma trace_probed: "trace (probed os arch root a w) =
   trace w @ [StatSync (flat_path a), StatSync (legacy_path os arch a), Mkdir root, ReadFile (root @ ''/'' @ a)]"
  by (simp add: probed_def)

lemma files_probed [simp]: "files (probed os arch root a w) = files w"
  by (simp add: probed_def)

lemma modes_probed [simp]: "modes (probed os arch root a w) = modes w"
  by (simp add: probed_def)

text \<open>C5: a cached file whose digest differs from the manifest entry is not accepted; resolution
  runs the download, with the same outcome and the same effects as in the world where the cache
  file is absent, and a fetched binary that passes the check replaces the cache entry, written
  with mode \<^verbatim>\<open>0o755\<close>.\<close>

theorem stale_cache_falls_through:
  assumes "currentPlatform E = Inr (os, arch)" and "cacheDir E = Inr root"
    and "\<not> truthy_str (env_get E ''MMAP_LIB_PATH'')"
    and "\<not> isFile w (flat_path a)" and "\<not> isFile w (legacy_path os arch a)"
    and "files w (root @ ''/'' @ a) = Some cached"
    and "truthy_str (checksums E a)"
    and "toLowerCase (sha256Hex E cached) \<noteq> toLowerCase (the (checksums E a))"
  shows "resolve E a w = download_tier E a (root @ ''/'' @ a) (probed os arch root a w)
   \<and> fst (resolve E a w) = fst (resolve E a (w\<lparr>files := (files w)(root @ ''/'' @ a := None)\<rparr>))
   \<and> trace (snd (resolve E a w))
       = trace (snd (resolve E a (w\<lparr>files := (files w)(root @ ''/'' @ a := None)\<rparr>)))
   \<and> (\<forall>st bin. fetch E (asset_url E a) = Response True st bin \<and> verified E a bin
          \<and> can_write E (root @ ''/'' @ a) \<longrightarrow>
        fst (resolve E a w) = Inr (root @ ''/'' @ a)
      \<and> files (snd (resolve E a w)) = (files w)(root @ ''/'' @ a \<mapsto> bin)
      \<and> modes (snd (resolve E a w)) = (modes w)(root @ ''/'' @ a \<mapsto> mode_755)
      \<and> trace (snd (resolve E a w))
          = trace (probed os arch root a w) @ [Fetch (asset_url E a), WriteFile (root @ ''/'' @ a) bin mode_755])"
proof -
  let ?c = "root @ ''/'' @ a"
  let ?v = "w\<lparr>files := (files w)(?c := None)\<rparr>"
  have nv: "\<not> verified E a cached" using assms(8) by (simp add: verified_def)
  have r: "resolve E a w = download_tier E a ?c (probed os arch root a w)"
    using assms(3-6) nv by (simp add: resolve_tiers [OF assms(3) assms(1) assms(2)])
  have ne: "flat_path a \<noteq> ?c" "legacy_path os arch a \<noteq> ?c"
    using assms(4-6) by (auto simp: isFile_def)
  have fv: "\<not> isFile ?v (flat_path a)" "\<not> isFile ?v (legacy_path os arch a)"
    using assms(4,5) ne by (simp_all add: isFile_def)
  have rv: "resolve E a ?v = download_tier E a ?c (probed os arch root a ?v)"
    using fv by (simp add: resolve_tiers [OF assms(3) assms(1) assms(2)])
  have tr: "trace (probed os arch root a w) = trace (probed os arch root a ?v)"
    by (simp add: trace_probed)
  note same = download_tier_same [OF tr, of E a ?c]
  have succ: "\<forall>st bin. fetch E (asset_url E a) = Response True st bin \<and> verified E a bin
          \<and> can_write E ?c \<longrightarrow>
        fst (resolve E a w) = Inr ?c
      \<and> files (snd (resolve E a w)) = (files w)(?c \<mapsto> bin)
      \<and> modes (snd (resolve E a w)) = (modes w)(?c \<mapsto> mode_755)
      \<and> trace (snd (resolve E a w))
          = trace (probed os arch root a w) @ [Fetch (asset_url E a), WriteFile ?c bin mode_755]"
    unfolding r using assms(7) by (simp add: download_tier_eq)
  have c2: "fst (resolve E a w) = fst (resolve E a ?v)"
    unfolding r rv using same by blast
  have c3: "trace (snd (resolve E a w)) = trace (snd (resolve E a ?v))"
    unfolding r rv using same by blast
  from r c2 c3 succ show ?thesis by blast
qed

lemma can_write_cache: "can_write cache_sys p"
  by (simp add: cache_sys_def linux_sys_def)

lemma fetch_cache: "fetch cache_sys release_url = Response True 200 [0x0a, 0xff]"
  by (simp add: cache_sys_def)

text \<open>A stale two-byte cache entry replaced by the release asset.\<close>

theorem stale_cache_falls_through_witness:
  "fst (resolve cache_sys so_name (world_of [cache_file \<mapsto> [0x0b, 0xff]])) = Inr cache_file
   \<and> files (snd (resolve cache_sys so_name (world_of [cache_file \<mapsto> [0x0b, 0xff]]))) cache_file
       = Some [0x0a, 0xff]
   \<and> modes (snd (resolve cache_sys so_name (world_of [cache_file \<mapsto> [0x0b, 0xff]]))) cache_file
       = Some mode_755
   \<and> trace (snd (resolve cache_sys so_name (world_of [cache_file \<mapsto> [0x0b, 0xff]])))
       = [StatSync (flat_path so_name), StatSync (legacy_path ''linux'' ''x86_64'' so_name),
          Mkdir cache_root, ReadFile cache_file, Fetch release_url,
          WriteFile cache_file [0x0a, 0xff] mode_755]"
proof -
  let ?w = "world_of [cache_file \<mapsto> [0x0b, 0xff]]"
  have ne: "flat_path so_name \<noteq> cache_file" "legacy_path ''linux'' ''x86_64'' so_name \<noteq> cache_file"
    by (simp_all add: flat_path_def legacy_path_def cache_file_def cache_root_def so_name_def)
  have a4: "\<not> isFile ?w (flat_path so_name)" using ne by (simp add: isFile_def world_of_def)
  have a5: "\<not> isFile ?w (legacy_path ''linux'' ''x86_64'' so_name)" using ne by (simp add: isFile_def world_of_def)
  have a6: "files ?w (cache_root @ ''/'' @ so_name) = Some [0x0b, 0xff]"
    by (simp add: world_of_def cache_file_def)
  have a7: "truthy_str (checksums cache_sys so_name)" by (simp add: manifest_cache truthy_str_def)
  have a8: "toLowerCase (sha256Hex cache_sys [0x0b, 0xff]) \<noteq> toLowerCase (the (checksums cache_sys so_name))"
    by (simp add: manifest_cache sha_cache)
  have f: "fetch cache_sys (asset_url cache_sys so_name) = Response True 200 [0x0a, 0xff]"
    by (simp add: url_cache fetch_cache)
  have cf: "cache_root @ ''/'' @ so_name = cache_file" by (simp add: cache_file_def)
  from stale_cache_falls_through [OF cp_cache cd_cache ov_cache a4 a5 a6 a7 a8] f ver_cache(1) can_write_cache
  have "fst (resolve cache_sys so_name ?w) = Inr (cache_root @ ''/'' @ so_name)
      \<and> files (snd (resolve cache_sys so_name ?w)) = (files ?w)(cache_root @ ''/'' @ so_name \<mapsto> [0x0a, 0xff])
      \<and> modes (snd (resolve cache_sys so_name ?w)) = (modes ?w)(cache_root @ ''/'' @ so_name \<mapsto> mode_755)
      \<and> trace (snd (resolve cache_sys so_name ?w))
          = trace (probed ''linux'' ''x86_64'' cache_root so_name ?w)
            @ [Fetch (asset_url cache_sys so_name), WriteFile (cache_root @ ''/'' @ so_name) [0x0a, 0xff] mode_755]"
    by blast
  then show ?thesis
    unfolding cf url_cache trace_probed by (simp add: world_of_def cf)
qed

text \<open>C6: a fetched binary whose digest differs from the manifest entry ends resolution with the
  checksum-mismatch error: the fetch is the last effect, no file and no mode changes, nothing
  else is tried. In every run of the download tier a write to the cache path carries bytes that
  passed the check and the mode \<^verbatim>\<open>0o755\<close>, and the cache entry changes only in a successful
  run, to exactly those bytes.\<close>

theorem tampered_download_rejected:
  "(fetch E (asset_url E a) = Response True st bin \<and> truthy_str (checksums E a)
      \<and> toLowerCase (sha256Hex E bin) \<noteq> toLowerCase (the (checksums E a)) \<longrightarrow>
      download_tier E a c w = (Inl (ChecksumMismatch a), emit (Fetch (asset_url E a)) w)
    \<and> (\<forall>os arch root. currentPlatform E = Inr (os, arch) \<and> cacheDir E = Inr root
         \<and> \<not> truthy_str (env_get E ''MMAP_LIB_PATH'')
         \<and> \<not> isFile w (flat_path a) \<and> \<not> isFile w (legacy_path os arch a)
         \<and> \<not> (\<exists>bs. files w (root @ ''/'' @ a) = Some bs \<and> verified E a bs) \<longrightarrow>
        fst (resolve E a w) = Inl (ChecksumMismatch a)
      \<and> files (snd (resolve E a w)) = files w
      \<and> modes (snd (resolve E a w)) = modes w
      \<and> trace (snd (resolve E a w)) = trace (probed os arch root a w) @ [Fetch (asset_url E a)]))
   \<and> (\<forall>r w'. download_tier E a c w = (r, w') \<longrightarrow>
        (r \<noteq> Inr c \<and> files w' = files w \<and> modes w' = modes w
           \<and> (\<forall>bs m. trace w' = trace w @ [Fetch (asset_url E a), WriteFile c bs m] \<longrightarrow>
                 verified E a bs \<and> m = mode_755)
           \<and> (trace w' = trace w @ [Fetch (asset_url E a)]
                \<or> (\<exists>bs. trace w' = trace w @ [Fetch (asset_url E a), WriteFile c bs mode_755])))
      \<or> (\<exists>s bs. fetch E (asset_url E a) = Response True s bs \<and> verified E a bs
           \<and> r = Inr c
           \<and> trace w' = trace w @ [Fetch (asset_url E a), WriteFile c bs mode_755]
           \<and> files w' = (files w)(c \<mapsto> bs) \<and> modes w' = (modes w)(c \<mapsto> mode_755)))"
proof (intro conjI impI allI)
  assume h: "fetch E (asset_url E a) = Response True st bin \<and> truthy_str (checksums E a)
      \<and> toLowerCase (sha256Hex E bin) \<noteq> toLowerCase (the (checksums E a))"
  then have nv: "\<not> verified E a bin" by (simp add: verified_def)
  show d: "download_tier E a c w = (Inl (ChecksumMismatch a), emit (Fetch (asset_url E a)) w)" for c w
    using h nv by (simp add: download_tier_eq)
  fix os arch root
  assume t: "currentPlatform E = Inr (os, arch) \<and> cacheDir E = Inr root
         \<and> \<not> truthy_str (env_get E ''MMAP_LIB_PATH'')
         \<and> \<not> isFile w (flat_path a) \<and> \<not> isFile w (legacy_path os arch a)
         \<and> \<not> (\<exists>bs. files w (root @ ''/'' @ a) = Some bs \<and> verified E a bs)"
  then have r: "resolve E a w = download_tier E a (root @ ''/'' @ a) (probed os arch root a w)"
    by (auto simp: resolve_tiers)
  show "fst (resolve E a w) = Inl (ChecksumMismatch a)" unfolding r d by simp
  show "files (snd (resolve E a w)) = files w" unfolding r d by simp
  show "modes (snd (resolve E a w)) = modes w" unfolding r d by simp
  show "trace (snd (resolve E a w)) = trace (probed os arch root a w) @ [Fetch (asset_url E a)]"
    unfolding r d by simp
next
  fix r w' assume "download_tier E a c w = (r, w')"
  then show "(r \<noteq> Inr c \<and> files w' = files w \<and> modes w' = modes w
           \<and> (\<forall>bs m. trace w' = trace w @ [Fetch (asset_url E a), WriteFile c bs m] \<longrightarrow>
                 verified E a bs \<and> m = mode_755)
           \<and> (trace w' = trace w @ [Fetch (asset_url E a)]
                \<or> (\<exists>bs. trace w' = trace w @ [Fetch (asset_url E a), WriteFile c bs mode_755])))
      \<or> (\<exists>s bs. fetch E (asset_url E a) = Response True s bs \<and> verified E a bs
           \<and> r = Inr c
           \<and> trace w' = trace w @ [Fetch (asset_url E a), WriteFile c bs mode_755]
           \<and> files w' = (files w)(c \<mapsto> bs) \<and> modes w' = (modes w)(c \<mapsto> mode_755))"
    by (auto simp: download_tier_eq split: response.splits if_splits)
qed

lemma tampered_cp: "currentPlatform tampered_sys = Inr (''linux'', ''x86_64'')"
  by (simp add: currentPlatform_def tampered_sys_def cache_sys_def linux_sys_def)

lemma tampered_cd: "cacheDir tampered_sys = Inr cache_root"
  by (simp add: cacheDir_def tampered_cp) (simp add: tampered_sys_def cache_sys_def linux_sys_def nullish_def cache_root_def)

lemma tampered_ov: "\<not> truthy_str (env_get tampered_sys ''MMAP_LIB_PATH'')"
  by (simp add: tampered_sys_def cache_sys_def truthy_str_def)

lemma tampered_facts:
  "checksums tampered_sys = checksums cache_sys"
  "sha256Hex tampered_sys = sha256Hex cache_sys"
  "fetch tampered_sys u = Response True 200 [0x0b, 0xff]"
  "asset_url tampered_sys so_name = release_url"
  by (simp_all add: tampered_sys_def sha256Hex_def fun_eq_iff)
     (simp add: asset_url_def OWNER_def REPO_def release_url_def cache_sys_def linux_sys_def)

text \<open>A release asset with one byte changed, over a stale cache entry.\<close>

theorem tampered_download_rejected_witness:
  "fst (resolve tampered_sys so_name (world_of [cache_file \<mapsto> [0x0b, 0xff]])) = Inl (ChecksumMismatch so_name)
   \<and> files (snd (resolve tampered_sys so_name (world_of [cache_file \<mapsto> [0x0b, 0xff]])))
       = [cache_file \<mapsto> [0x0b, 0xff]]
   \<and> trace (snd (resolve tampered_sys so_name (world_of [cache_file \<mapsto> [0x0b, 0xff]])))
       = [StatSync (flat_path so_name), StatSync (legacy_path ''linux'' ''x86_64'' so_name),
          Mkdir cache_root, ReadFile cache_file, Fetch release_url]"
proof -
  let ?w = "world_of [cache_file \<mapsto> [0x0b, 0xff]]"
  have ne: "flat_path so_name \<noteq> cache_file" "legacy_path ''linux'' ''x86_64'' so_name \<noteq> cache_file"
    by (simp_all add: flat_path_def legacy_path_def cache_file_def cache_root_def so_name_def)
  have nf: "\<not> isFile ?w (flat_path so_name)" "\<not> isFile ?w (legacy_path ''linux'' ''x86_64'' so_name)"
    using ne by (simp_all add: isFile_def world_of_def)
  have nv: "\<not> verified tampered_sys so_name [0x0b, 0xff]"
    using ver_cache(2) by (simp add: verified_def tampered_facts)
  have nc: "\<not> (\<exists>bs. files ?w (cache_root @ ''/'' @ so_name) = Some bs \<and> verified tampered_sys so_name bs)"
    using nv by (simp add: world_of_def cache_file_def)
  have h1: "fetch tampered_sys (asset_url tampered_sys so_name) = Response True 200 [0x0b, 0xff]"
    by (simp add: tampered_facts)
  have h2: "truthy_str (checksums tampered_sys so_name)"
    by (simp add: tampered_facts manifest_cache truthy_str_def)
  have h3: "toLowerCase (sha256Hex tampered_sys [0x0b, 0xff]) \<noteq> toLowerCase (the (checksums tampered_sys so_name))"
    by (simp add: tampered_facts manifest_cache sha_cache)
  from tampered_download_rejected [of tampered_sys so_name 200 "[0x0b, 0xff]" cache_file ?w]
    h1 h2 h3 tampered_cp tampered_cd tampered_ov nf nc
  have "fst (resolve tampered_sys so_name ?w) = Inl (ChecksumMismatch so_name)
      \<and> files (snd (resolve tampered_sys so_name ?w)) = files ?w
      \<and> trace (snd (resolve tampered_sys so_name ?w))
          = trace (probed ''linux'' ''x86_64'' cache_root so_name ?w) @ [Fetch (asset_url tampered_sys so_name)]"
    by blast
  then show ?thesis
    unfolding trace_probed tampered_facts by (simp add: world_of_def cache_file_def)
qed

section \<open>Symbol negotiation\<close>

lemma dlopen_eq:
  "dlopen E p defs w =
     (if binds E p defs then (Inr (bound_lib p defs), emit (Dlopen p (map fst defs)) w)
      else (Inl (DlopenFailed p), emit (Dlopen p (map fst defs)) w))"
  by (simp add: dlopen_def binds_def Let_def split: option.splits)

lemma names_V1: "map fst symbolsV1 =
   [''mmap_open'', ''mmap_open_write'', ''mmap_write'', ''mmap_read'', ''mmap_flush'', ''mmap_close'']"
  by (simp add: symbolsV1_def)

lemma names_V2: "map fst symbolsV2 =
   [''mmap_open'', ''mmap_open_write'', ''mmap_open_write_with_size'', ''mmap_write'', ''mmap_read'',
    ''mmap_flush'', ''mmap_close'']"
  by (simp add: symbolsV2_def)

lemma legacy_has_no_with_size: "symbols (bound_lib p symbolsV1) ''mmap_open_write_with_size'' = None"
  by (simp add: bound_lib_def symbolsV1_def)

lemma full_has_with_size:
  "symbols (bound_lib p symbolsV2) ''mmap_open_write_with_size'' = Some (JFunction ''mmap_open_write_with_size'')"
  by (simp add: bound_lib_def symbolsV2_def)

lemma fallback_when_unbound:
  assumes "libP w = Some (Inr l)"
    and "parameters_of (case symbols l ''mmap_open_write_with_size'' of None \<Rightarrow> JUndefined | Some f \<Rightarrow> f) = JUndefined"
  shows "openWriteWithSize E pth n w =
           (case truncate_file pth (Number n) w of
              (Some e, w2) \<Rightarrow> (Inl e, w2)
            | (None, w2) \<Rightarrow> openWrite E pth w2)"
  using assms by (simp add: openWriteWithSize_def getLib_def Let_def)

text \<open>C8: binding opens the resolved path with the seven symbols of \<open>symbolsV2\<close> first (the six
  base operations and \<^verbatim>\<open>mmap_open_write_with_size\<close>); if that succeeds nothing else is tried; if
  it fails, and only then, the path is opened with the six symbols of \<open>symbolsV1\<close>; if that fails
  too the load fails with the loader's error after exactly these two attempts. After a legacy
  bind the memoised library has no \<^verbatim>\<open>mmap_open_write_with_size\<close>, every later \<open>getLib\<close> returns
  that library with no further effect, and \<open>openWriteWithSize\<close> on it truncates and then calls
  \<open>openWrite\<close>.\<close>

theorem symbol_negotiation:
  assumes "assetName E ''mmap_ffi'' = Inr a" and "resolve E a w = (Inr p, w1)"
  shows
   "(binds E p symbolsV2 \<longrightarrow>
       loadLibrary E w = (Inr (bound_lib p symbolsV2), emit (Dlopen p (map fst symbolsV2)) w1))
  \<and> (\<not> binds E p symbolsV2 \<and> binds E p symbolsV1 \<longrightarrow>
       loadLibrary E w = (Inr (bound_lib p symbolsV1),
                          emit (Dlopen p (map fst symbolsV1)) (emit (Dlopen p (map fst symbolsV2)) w1))
     \<and> symbols (bound_lib p symbolsV1) ''mmap_open_write_with_size'' = None
     \<and> (libP w = None \<longrightarrow> libP (snd (getLib E w)) = Some (Inr (bound_lib p symbolsV1)))
     \<and> (\<forall>w3 pth n. libP w3 = Some (Inr (bound_lib p symbolsV1)) \<longrightarrow>
           getLib E w3 = (Inr (bound_lib p symbolsV1), w3)
         \<and> openWriteWithSize E pth n w3 =
             (case truncate_file pth (Number n) w3 of
                (Some e, w4) \<Rightarrow> (Inl e, w4)
              | (None, w4) \<Rightarrow> openWrite E pth w4)))
  \<and> (\<not> binds E p symbolsV2 \<and> \<not> binds E p symbolsV1 \<longrightarrow>
       loadLibrary E w = (Inl (DlopenFailed p),
                          emit (Dlopen p (map fst symbolsV1)) (emit (Dlopen p (map fst symbolsV2)) w1)))
  \<and> map fst symbolsV1 =
       [''mmap_open'', ''mmap_open_write'', ''mmap_write'', ''mmap_read'', ''mmap_flush'', ''mmap_close'']
  \<and> set (map fst symbolsV2) = set (map fst symbolsV1) \<union> {''mmap_open_write_with_size''}"
proof (intro conjI impI allI)
  assume "binds E p symbolsV2"
  then show "loadLibrary E w = (Inr (bound_lib p symbolsV2), emit (Dlopen p (map fst symbolsV2)) w1)"
    using assms by (simp add: loadLibrary_def dlopen_eq)
next
  assume b: "\<not> binds E p symbolsV2 \<and> binds E p symbolsV1"
  then show l: "loadLibrary E w = (Inr (bound_lib p symbolsV1),
                          emit (Dlopen p (map fst symbolsV1)) (emit (Dlopen p (map fst symbolsV2)) w1))"
    using assms by (simp add: loadLibrary_def dlopen_eq)
  show "symbols (bound_lib p symbolsV1) ''mmap_open_write_with_size'' = None"
    by (rule legacy_has_no_with_size)
  {
    assume "libP w = None"
    then show "libP (snd (getLib E w)) = Some (Inr (bound_lib p symbolsV1))"
      by (simp add: getLib_def l)
  }
  {
    fix w3 :: world and pth n assume m: "libP w3 = Some (Inr (bound_lib p symbolsV1))"
    then show "getLib E w3 = (Inr (bound_lib p symbolsV1), w3)" by (rule getLib_again)
    show "openWriteWithSize E pth n w3 =
             (case truncate_file pth (Number n) w3 of
                (Some e, w4) \<Rightarrow> (Inl e, w4)
              | (None, w4) \<Rightarrow> openWrite E pth w4)"
      using m by (rule fallback_when_unbound) (simp add: legacy_has_no_with_size)
  }
next
  assume "\<not> binds E p symbolsV2 \<and> \<not> binds E p symbolsV1"
  then show "loadLibrary E w = (Inl (DlopenFailed p),
                          emit (Dlopen p (map fst symbolsV1)) (emit (Dlopen p (map fst symbolsV2)) w1))"
    using assms by (simp add: loadLibrary_def dlopen_eq)
next
  show "map fst symbolsV1 =
       [''mmap_open'', ''mmap_open_write'', ''mmap_write'', ''mmap_read'', ''mmap_flush'', ''mmap_close'']"
    by (rule names_V1)
  show "set (map fst symbolsV2) = set (map fst symbolsV1) \<union> {''mmap_open_write_with_size''}"
    unfolding names_V1 names_V2 by auto
qed

lemma binds_linux: "\<not> binds linux_sys ''/opt/libmmap_ffi.so'' symbolsV2" "binds linux_sys ''/opt/libmmap_ffi.so'' symbolsV1"
  by (simp_all add: binds_def exports_linux names_V1 names_V2)

text \<open>A binary that exports the six base symbols only.\<close>

theorem symbol_negotiation_witness:
  "loadLibrary linux_sys fresh
     = (Inr (bound_lib ''/opt/libmmap_ffi.so'' symbolsV1),
        emit (Dlopen ''/opt/libmmap_ffi.so'' (map fst symbolsV1))
          (emit (Dlopen ''/opt/libmmap_ffi.so'' (map fst symbolsV2)) fresh))
   \<and> libP (snd (getLib linux_sys fresh)) = Some (Inr (bound_lib ''/opt/libmmap_ffi.so'' symbolsV1))
   \<and> getLib linux_sys loaded = (Inr (bound_lib ''/opt/libmmap_ffi.so'' symbolsV1), loaded)"
proof -
  have m: "libP loaded = Some (Inr (bound_lib ''/opt/libmmap_ffi.so'' symbolsV1))"
    by (simp add: loaded_def lib_v1_def)
  from symbol_negotiation [OF asset_linux resolve_linux] binds_linux libP_fresh m
  show ?thesis by blast
qed

section \<open>Opening with a minimum size\<close>

lemma asset_full: "assetName full_sys ''mmap_ffi'' = Inr ''mmap_ffi-linux-x86_64.so''"
  by (simp add: assetName_def currentPlatform_def full_sys_def linux_sys_def)

lemma resolve_full: "resolve full_sys a w = (Inr ''/opt/libmmap_ffi.so'', w)"
  by (simp add: resolve_def full_sys_def linux_sys_def truthy_str_def)

lemma binds_full: "binds full_sys ''/opt/libmmap_ffi.so'' symbolsV2"
  by (simp add: binds_def full_sys_def)

lemma load_full: "loadLibrary full_sys w = (Inr lib_v2, emit (Dlopen ''/opt/libmmap_ffi.so'' (map fst symbolsV2)) w)"
  by (simp add: loadLibrary_def asset_full resolve_full dlopen_eq binds_full lib_v2_def)

text \<open>Whatever \<open>loadLibrary\<close> returns, the test that guards the native size-ensuring open
  reads \<^verbatim>\<open>undefined\<close>, so \<open>openWriteWithSize\<close> takes the truncate path.\<close>

lemma loaded_symbols_are_functions:
  assumes "loadLibrary E w = (Inr l, w1)"
  shows "parameters_of (case symbols l ''mmap_open_write_with_size'' of None \<Rightarrow> JUndefined | Some f \<Rightarrow> f) = JUndefined"
proof -
  have "\<exists>p. l = bound_lib p symbolsV2 \<or> l = bound_lib p symbolsV1"
    using assms
    by (auto simp: loadLibrary_def dlopen_eq split: sum.splits prod.splits if_splits)
  then obtain p where "l = bound_lib p symbolsV2 \<or> l = bound_lib p symbolsV1" by blast
  then show ?thesis
  proof
    assume "l = bound_lib p symbolsV2"
    then show ?thesis by (simp add: full_has_with_size)
  next
    assume "l = bound_lib p symbolsV1"
    then show ?thesis by (simp add: legacy_has_no_with_size)
  qed
qed

lemma with_size_always_falls_back:
  assumes "loadLibrary E w0 = (Inr l, w1)" and "libP w = Some (Inr l)"
  shows "openWriteWithSize E pth n w =
           (case truncate_file pth (Number n) w of
              (Some e, w2) \<Rightarrow> (Inl e, w2)
            | (None, w2) \<Rightarrow> openWrite E pth w2)"
  using assms(2) loaded_symbols_are_functions [OF assms(1)] by (rule fallback_when_unbound)

lemma getLib_full: "getLib full_sys fresh
   = (Inr lib_v2, (emit (Dlopen ''/opt/libmmap_ffi.so'' (map fst symbolsV2)) fresh)\<lparr>libP := Some (Inr lib_v2)\<rparr>)"
  by (simp add: getLib_def libP_fresh load_full)

lemma nat_open_write_full:
  "nat_open_write full_sys w p = (case files w p of None \<Rightarrow> (None, 0) | Some bs \<Rightarrow> (Some 4096, of_nat (length bs)))"
  by (simp add: full_sys_def linux_sys_def)

text \<open>C3, at a binary that exports all seven symbols: the library is bound with \<open>symbolsV2\<close> and
  holds \<^verbatim>\<open>mmap_open_write_with_size\<close>, yet \<open>openWriteWithSize\<close> does not call it. The test
  \<^verbatim>\<open>mmap_open_write_with_size?.parameters\<close> reads a property that a bound function does not
  have, so the call truncates the file (here from 16 bytes down to the 4 requested) and maps it
  with \<^verbatim>\<open>mmap_open_write\<close>.\<close>

theorem full_interface_not_delegated:
  "fst (loadLibrary full_sys fresh) = Inr lib_v2
   \<and> symbols lib_v2 ''mmap_open_write_with_size'' = Some (JFunction ''mmap_open_write_with_size'')
   \<and> fst (openWriteWithSize full_sys ''data.bin'' 4 fresh)
       = Inr \<lparr>ptr = Some 4096, len = 4, path = ''data.bin''\<rparr>
   \<and> trace (snd (openWriteWithSize full_sys ''data.bin'' 4 fresh))
       = [Dlopen ''/opt/libmmap_ffi.so'' (map fst symbolsV2), Truncate ''data.bin'' (Num 4), N_open_write ''data.bin'']
   \<and> files fresh ''data.bin'' = Some (replicate 16 0)
   \<and> files (snd (openWriteWithSize full_sys ''data.bin'' 4 fresh)) ''data.bin'' = Some (replicate 4 0)"
proof -
  let ?w1 = "(emit (Dlopen ''/opt/libmmap_ffi.so'' (map fst symbolsV2)) fresh)\<lparr>libP := Some (Inr lib_v2)\<rparr>"
  have s: "symbols lib_v2 ''mmap_open_write_with_size'' = Some (JFunction ''mmap_open_write_with_size'')"
    by (simp add: lib_v2_def full_has_with_size)
  have f: "files fresh ''data.bin'' = Some (replicate 16 0)" by (simp add: fresh_def)
  have t: "truncate_file ''data.bin'' (Num 4) ?w1
     = (None, (emit (Truncate ''data.bin'' (Num 4)) ?w1)\<lparr>files := (files fresh)(''data.bin'' \<mapsto> replicate 4 0)\<rparr>)"
    by (simp add: truncate_file_def Let_def f emit_def)
  have o: "openWriteWithSize full_sys ''data.bin'' 4 fresh
     = openWrite full_sys ''data.bin''
         ((emit (Truncate ''data.bin'' (Num 4)) ?w1)\<lparr>files := (files fresh)(''data.bin'' \<mapsto> replicate 4 0)\<rparr>)"
  proof -
    have n4: "Number 4 = Num 4" by (rule Number_exact) simp
    show ?thesis by (simp add: openWriteWithSize_def getLib_full s n4 t)
  qed
  have r: "openWrite full_sys ''data.bin''
         ((emit (Truncate ''data.bin'' (Num 4)) ?w1)\<lparr>files := (files fresh)(''data.bin'' \<mapsto> replicate 4 0)\<rparr>)
     = (Inr \<lparr>ptr = Some 4096, len = 4, path = ''data.bin''\<rparr>,
        emit (N_open_write ''data.bin'')
          ((emit (Truncate ''data.bin'' (Num 4)) ?w1)\<lparr>files := (files fresh)(''data.bin'' \<mapsto> replicate 4 0)\<rparr>))"
    by (simp add: openWrite_def getLib_def emit_def nat_open_write_full ptrValue_def Number_u64_small)
  show ?thesis
    unfolding o r by (simp add: load_full s f emit_def fresh_def)
qed

section \<open>Assets without a manifest entry\<close>

lemma unlisted_cp: "currentPlatform unlisted_sys = Inr (''linux'', ''x86_64'')"
  by (simp add: currentPlatform_def unlisted_sys_def cache_sys_def linux_sys_def)

lemma unlisted_cd: "cacheDir unlisted_sys = Inr cache_root"
  by (simp add: cacheDir_def unlisted_cp) (simp add: unlisted_sys_def cache_sys_def linux_sys_def nullish_def cache_root_def)

lemma unlisted_ov: "\<not> truthy_str (env_get unlisted_sys ''MMAP_LIB_PATH'')"
  by (simp add: unlisted_sys_def cache_sys_def truthy_str_def)

lemma unlisted_manifest: "checksums unlisted_sys a = None"
  by (simp add: unlisted_sys_def)

lemma unlisted_fetch: "fetch unlisted_sys (asset_url unlisted_sys so_name) = Response True 200 [0x0a, 0xff]"
  by (simp add: unlisted_sys_def asset_url_def OWNER_def REPO_def release_url_def cache_sys_def linux_sys_def)

lemma offline_cp: "currentPlatform offline_sys = Inr (''linux'', ''x86_64'')"
  by (simp add: currentPlatform_def offline_sys_def unlisted_sys_def cache_sys_def linux_sys_def)

lemma offline_cd: "cacheDir offline_sys = Inr cache_root"
  by (simp add: cacheDir_def offline_cp)
     (simp add: offline_sys_def unlisted_sys_def cache_sys_def linux_sys_def nullish_def cache_root_def)

lemma offline_ov: "\<not> truthy_str (env_get offline_sys ''MMAP_LIB_PATH'')"
  by (simp add: offline_sys_def unlisted_sys_def cache_sys_def truthy_str_def)

lemma offline_manifest: "checksums offline_sys a = None"
  by (simp add: offline_sys_def unlisted_sys_def)

lemma offline_fetch: "fetch offline_sys u = NoResponse ''offline''"
  by (simp add: offline_sys_def)

lemma not_verified_unlisted: "\<not> truthy_str (checksums E a) \<Longrightarrow> \<not> verified E a bs"
  by (simp add: verified_def)

text \<open>C7, as stated, fails twice. With \<^verbatim>\<open>MMAP_LIB_PATH\<close> set, an asset without a manifest entry
  is loaded. With a cached file, no manifest entry and no network, the miss found on the cache
  path is swallowed and the error raised is the network failure.\<close>

theorem unlisted_asset_counterexample:
  "assetName linux_sys ''mmap_ffi'' = Inr so_name
   \<and> checksums linux_sys so_name = None
   \<and> fst (loadLibrary linux_sys fresh) = Inr lib_v1
   \<and> checksums offline_sys so_name = None
   \<and> fst (resolve offline_sys so_name (world_of [cache_file \<mapsto> [0x0a, 0xff]])) = Inl (NetworkError ''offline'')"
proof -
  let ?w = "world_of [cache_file \<mapsto> [0x0a, 0xff]]"
  have ne: "flat_path so_name \<noteq> cache_file" "legacy_path ''linux'' ''x86_64'' so_name \<noteq> cache_file"
    by (simp_all add: flat_path_def legacy_path_def cache_file_def cache_root_def so_name_def)
  have nf: "\<not> isFile ?w (flat_path so_name)" "\<not> isFile ?w (legacy_path ''linux'' ''x86_64'' so_name)"
    using ne by (simp_all add: isFile_def world_of_def)
  have nt: "\<not> truthy_str (checksums offline_sys so_name)"
    by (simp add: offline_manifest truthy_str_def)
  have 1: "assetName linux_sys ''mmap_ffi'' = Inr so_name" by (simp add: asset_linux so_name_def)
  have 2: "checksums linux_sys so_name = None" by (simp add: linux_sys_def)
  have 3: "fst (loadLibrary linux_sys fresh) = Inr lib_v1"
    by (simp add: loadLibrary_def asset_linux resolve_linux dlopen_v2_linux dlopen_v1_linux)
  have 5: "fst (resolve offline_sys so_name ?w) = Inl (NetworkError ''offline'')"
    using nf not_verified_unlisted [OF nt]
    by (simp add: resolve_tiers [OF offline_ov offline_cp offline_cd] download_tier_eq offline_fetch)
  from 1 2 3 5 offline_manifest show ?thesis by blast
qed

text \<open>C7, amended: when neither the override nor a development artifact matches and the manifest
  has no non-empty entry for the asset, resolution always fails and the cache is left as it was.
  The miss on the cache path is not raised; the download runs, and the error is the missing-entry
  error, which differs from both mismatch errors, once the fetch has succeeded, and the fetch's
  own failure otherwise.\<close>

theorem unlisted_asset_never_accepted:
  assumes "currentPlatform E = Inr (os, arch)" and "cacheDir E = Inr root"
    and "\<not> truthy_str (env_get E ''MMAP_LIB_PATH'')"
    and "\<not> isFile w (flat_path a)" and "\<not> isFile w (legacy_path os arch a)"
    and "\<not> truthy_str (checksums E a)"
  shows "resolve E a w =
           (Inl (case fetch E (asset_url E a) of
                   NoResponse msg \<Rightarrow> NetworkError msg
                 | Response ok st body \<Rightarrow> if ok then NoChecksum a else FetchFailed (asset_url E a) st),
            emit (Fetch (asset_url E a)) (probed os arch root a w))
   \<and> files (snd (resolve E a w)) = files w
   \<and> modes (snd (resolve E a w)) = modes w
   \<and> NoChecksum a \<noteq> ChecksumMismatch a \<and> NoChecksum a \<noteq> ChecksumMismatchCache"
proof -
  have nv: "\<And>bs. \<not> verified E a bs" using assms(6) by (rule not_verified_unlisted)
  have r: "resolve E a w =
           (Inl (case fetch E (asset_url E a) of
                   NoResponse msg \<Rightarrow> NetworkError msg
                 | Response ok st body \<Rightarrow> if ok then NoChecksum a else FetchFailed (asset_url E a) st),
            emit (Fetch (asset_url E a)) (probed os arch root a w))"
    using assms(4-6) nv
    by (simp add: resolve_tiers [OF assms(3) assms(1) assms(2)] download_tier_eq split: response.splits)
  show ?thesis unfolding r by simp
qed

text \<open>A cached and downloadable asset that the manifest does not list.\<close>

theorem unlisted_asset_never_accepted_witness:
  "resolve unlisted_sys so_name (world_of [cache_file \<mapsto> [0x0a, 0xff]])
     = (Inl (NoChecksum so_name),
        emit (Fetch (asset_url unlisted_sys so_name))
          (probed ''linux'' ''x86_64'' cache_root so_name (world_of [cache_file \<mapsto> [0x0a, 0xff]])))
   \<and> files (snd (resolve unlisted_sys so_name (world_of [cache_file \<mapsto> [0x0a, 0xff]])))
       = files (world_of [cache_file \<mapsto> [0x0a, 0xff]])"
proof -
  let ?w = "world_of [cache_file \<mapsto> [0x0a, 0xff]]"
  have ne: "flat_path so_name \<noteq> cache_file" "legacy_path ''linux'' ''x86_64'' so_name \<noteq> cache_file"
    by (simp_all add: flat_path_def legacy_path_def cache_file_def cache_root_def so_name_def)
  have nf: "\<not> isFile ?w (flat_path so_name)" "\<not> isFile ?w (legacy_path ''linux'' ''x86_64'' so_name)"
    using ne by (simp_all add: isFile_def world_of_def)
  have nt: "\<not> truthy_str (checksums unlisted_sys so_name)"
    by (simp add: unlisted_manifest truthy_str_def)
  from unlisted_asset_never_accepted [OF unlisted_cp unlisted_cd unlisted_ov nf nt]
  show ?thesis by (simp add: unlisted_fetch)
qed

end
